theory Spec2Isabelle
  imports Main "HOL-Library.Word"
begin

unbundle bit_operations_syntax

section \<open>Data model of plugins/capi/capi.c\<close>

text \<open>
  Bytes (\<^verbatim>\<open>unsigned char\<close>), channel identifiers and return codes are natural numbers;
  where the C type wraps around the modulus is written out.  A C string is a
  \<^typ>\<open>string\<close> without the terminating NUL, a nullable pointer is an option, and a
  pointer to a slot of the session's connection table is the index of the slot.
\<close>

type_synonym byte = nat

text \<open>
  Modelled from the spec: the enumerations of capi.h are not part of the sources.  The
  ten states are those of the spec's state machine; \<open>STATE_OTHER\<close> stands for every further
  value the integer field can hold.  The first state is the one a zeroed slot has.
\<close>

datatype conn_state =
    STATE_IDLE
  | STATE_RINGING
  | STATE_CONNECT_WAIT
  | STATE_CONNECT_ACTIVE
  | STATE_CONNECT_B3_WAIT
  | STATE_CONNECTED
  | STATE_DISCONNECT_B3_REQ
  | STATE_DISCONNECT_B3_WAIT
  | STATE_DISCONNECT_ACTIVE
  | STATE_INCOMING_WAIT
  | STATE_OTHER nat

text \<open>
  Modelled from the spec: call kind is phone, fax or none, and none is the value 0 of a
  zeroed slot (\<^verbatim>\<open>type != 0\<close> in \<^verbatim>\<open>capi_find_new\<close>); \<open>SESSION_OTHER\<close> stands for every
  further value of the integer.
\<close>

datatype session_type =
    SESSION_NONE
  | SESSION_FAX
  | SESSION_PHONE
  | SESSION_OTHER nat

text \<open>The functions of phone.c and fax.c that a connection is bound to.\<close>

datatype hook =
    capi_phone_init_data
  | capi_phone_data
  | capi_fax_init_data
  | capi_fax_data
  | capi_fax_clean

record capi_connection =
  conn_id :: nat
  plci :: nat
  ncci :: nat
  state :: conn_state
  type :: session_type
  init_data :: "hook option"
  data :: "hook option"
  clean :: "hook option"
  early_b3 :: int
  source :: "string option"
  target :: "string option"
  priv :: "nat option"
  audio :: "nat option"
  connect_time :: int
  reason :: nat
  reason_b3 :: nat
  ncpi :: "byte list option"
  use_buffers :: nat
  buffers :: nat

text \<open>The result of \<^verbatim>\<open>memset(connection, 0, sizeof(struct capi_connection))\<close>.\<close>

definition zero_connection :: capi_connection where
  "zero_connection =
     \<lparr>conn_id = 0, plci = 0, ncci = 0, state = STATE_IDLE, type = SESSION_NONE,
      init_data = None, data = None, clean = None, early_b3 = 0,
      source = None, target = None, priv = None, audio = None, connect_time = 0,
      reason = 0, reason_b3 = 0, ncpi = None, use_buffers = 0, buffers = 0\<rparr>"

record session =
  appl_id :: int
  message_number :: nat
  isdn_mutex :: bool
  connection :: "capi_connection list"
  input_thread_state :: int

subsection \<open>Messages on the wire\<close>

text \<open>
  The requests and responses handed to the CAPI library, with the application id, the
  message number and the arguments the source passes.
\<close>

record connect_request =
  Controller :: nat
  CIPValue_req :: nat
  CalledPartyNumber_req :: "byte list"
  CallingPartyNumber_req :: "byte list"
  B1protocol :: nat
  B2protocol :: nat
  B3protocol :: nat
  B1configuration :: "byte list option"
  B2configuration :: "byte list option"
  B3configuration :: "byte list option"
  BC :: "byte list"
  LLC :: "byte list"
  HLC :: "byte list"

datatype wire_req =
    CONNECT_REQ int nat connect_request
  | CONNECT_RESP int nat nat nat nat nat nat "byte list option"
  | CONNECT_ACTIVE_RESP int nat nat
  | CONNECT_B3_REQ int nat nat
  | CONNECT_B3_RESP int nat nat
  | CONNECT_B3_ACTIVE_RESP int nat nat
  | DATA_B3_RESP int nat nat nat
  | DISCONNECT_REQ int nat nat
  | DISCONNECT_RESP int nat nat
  | DISCONNECT_B3_REQ int nat nat
  | DISCONNECT_B3_RESP int nat nat
  | ALERT_REQ int nat nat
  | FACILITY_REQ int nat nat nat "byte list"
  | FACILITY_RESP int nat nat nat "byte list"
  | INFO_RESP int nat nat
  | LISTEN_REQ int nat nat

text \<open>The callbacks \<^verbatim>\<open>emit_*\<close> that are attached to the main context as idle sources.\<close>

datatype notification =
    emit_connect
  | emit_disconnect
  | emit_incoming
  | emit_status

text \<open>
  Everything the code does to the outside, in the order it does it: a request put on the
  wire, a callback posted to the application's main context for the \<^verbatim>\<open>RmConnection\<close> of an
  id, the call of a bound hook on a slot, a message emitted in line, a connection added
  to the application's registry, the audio device, sleeping, registration.
\<close>

datatype event =
    Wire wire_req
  | Post notification nat
  | Hook hook nat
  | Emit_message string string
  | Rm_connection_add nat string string
  | Audio_open
  | Audio_close "nat option"
  | Usleep nat
  | CAPI20_REGISTER
  | CAPI20_RELEASE int

datatype fault =
    NULL_DEREF
  | BAD_POINTER
  | DEADLOCK
  | SPIN_FOREVER
  | ASSERT_FAILED
  | OUT_OF_BOUNDS

text \<open>
  The file's static variables: \<^verbatim>\<open>session\<close>, the id counter \<^verbatim>\<open>id\<close> (here \<open>next_id\<close>,
  as \<open>id\<close> is the identity function of HOL), and the two output streams: the events
  and the lines written with \<^verbatim>\<open>g_debug\<close>, \<^verbatim>\<open>g_warning\<close> and \<^verbatim>\<open>g_print\<close> (their format
  strings).
\<close>

record capi_state =
  session :: "session option"
  next_id :: nat
  events :: "event list"
  debug :: "string list"

text \<open>
  What the code calls and does not define: the transport's return code for a request,
  the application's registry of connections, the audio device, the audio input worker,
  the bound hooks, the clock, the content of uninitialised local arrays, and the
  registration calls.  Answers may depend on the moment, given as the number of events
  so far.
\<close>

record env =
  transport :: "nat \<Rightarrow> wire_req \<Rightarrow> nat"
  rm_connection_find_by_id :: "nat \<Rightarrow> nat \<Rightarrow> bool"
  rm_connection_add :: "nat \<Rightarrow> nat \<Rightarrow> bool"
  rm_audio_open :: "nat \<Rightarrow> nat option"
  input_thread_stops :: "nat \<Rightarrow> bool"
  run_hook :: "hook \<Rightarrow> capi_connection \<Rightarrow> capi_connection"
  time_now :: "nat \<Rightarrow> int"
  uninit :: "nat \<Rightarrow> byte"
  ACCEPT_INTERN :: bool
  CAPI20_ISINSTALLED :: "nat \<Rightarrow> nat"
  CAPI20_GET_PROFILE :: "nat \<Rightarrow> nat \<times> nat"
  CAPI20_REGISTER_result :: "nat \<Rightarrow> nat \<times> nat"

subsection \<open>Sequencing of fallible steps\<close>

definition and_then :: "fault + 'a \<Rightarrow> ('a \<Rightarrow> fault + 'b) \<Rightarrow> fault + 'b" where
  "and_then m f = (case m of Inl x \<Rightarrow> Inl x | Inr a \<Rightarrow> f a)"

definition g_debug :: "capi_state \<Rightarrow> string \<Rightarrow> capi_state" where
  "g_debug g msg = g\<lparr>debug := debug g @ [msg]\<rparr>"

definition emit :: "capi_state \<Rightarrow> event \<Rightarrow> capi_state" where
  "emit g ev = g\<lparr>events := events g @ [ev]\<rparr>"

definition now :: "capi_state \<Rightarrow> nat" where
  "now g = length (events g)"

text \<open>Reading the global \<^verbatim>\<open>session\<close> pointer and following it.\<close>

definition get_session :: "capi_state \<Rightarrow> fault + session" where
  "get_session g = (case session g of None \<Rightarrow> Inl NULL_DEREF | Some s \<Rightarrow> Inr s)"

text \<open>Following a connection pointer: it must point to a slot of the session's table.\<close>

definition deref :: "capi_state \<Rightarrow> nat \<Rightarrow> fault + capi_connection" where
  "deref g i =
     (case session g of
        None \<Rightarrow> Inl BAD_POINTER
      | Some s \<Rightarrow> if i < length (connection s) then Inr (connection s ! i) else Inl BAD_POINTER)"

definition modify :: "capi_state \<Rightarrow> nat \<Rightarrow> (capi_connection \<Rightarrow> capi_connection) \<Rightarrow> capi_state" where
  "modify g i f =
     (case session g of
        None \<Rightarrow> g
      | Some s \<Rightarrow> g\<lparr>session := Some (s\<lparr>connection := (connection s)[i := f (connection s ! i)]\<rparr>)\<rparr>)"

text \<open>
  Modelled from the spec: \<^verbatim>\<open>isdn_lock\<close> and \<^verbatim>\<open>isdn_unlock\<close> are macros of capi.h; the
  spec's mutex guarding every wire request is \<^verbatim>\<open>session->isdn_mutex\<close>, initialised with
  \<^verbatim>\<open>g_mutex_init\<close>: it is not recursive, so locking it twice from one thread never returns.
\<close>

definition isdn_lock :: "capi_state \<Rightarrow> fault + capi_state" where
  "isdn_lock g =
     and_then (get_session g) (\<lambda>s.
       if isdn_mutex s then Inl DEADLOCK
       else Inr (g\<lparr>session := Some (s\<lparr>isdn_mutex := True\<rparr>)\<rparr>))"

definition isdn_unlock :: "capi_state \<Rightarrow> fault + capi_state" where
  "isdn_unlock g =
     and_then (get_session g) (\<lambda>s. Inr (g\<lparr>session := Some (s\<lparr>isdn_mutex := False\<rparr>)\<rparr>))"

text \<open>
  One request built from the session (which a \<^verbatim>\<open>message_number++\<close> among the arguments
  updates) and put on the wire; the result is the return code.
\<close>

definition put_request ::
  "env \<Rightarrow> capi_state \<Rightarrow> (session \<Rightarrow> wire_req \<times> session) \<Rightarrow> fault + (nat \<times> capi_state)" where
  "put_request e g mk =
     and_then (get_session g) (\<lambda>s.
       case mk s of (r, s') \<Rightarrow>
         Inr (transport e (now g) r, emit (g\<lparr>session := Some s'\<rparr>) (Wire r)))"

text \<open>The pattern \<^verbatim>\<open>isdn_lock(); info = X_REQ(...); isdn_unlock();\<close>.\<close>

definition locked_request ::
  "env \<Rightarrow> capi_state \<Rightarrow> (session \<Rightarrow> wire_req \<times> session) \<Rightarrow> fault + (nat \<times> capi_state)" where
  "locked_request e g mk =
     and_then (isdn_lock g) (\<lambda>g1.
     and_then (put_request e g1 mk) (\<lambda>(info, g2).
     and_then (isdn_unlock g2) (\<lambda>g3. Inr (info, g3))))"

definition next_message_number :: "session \<Rightarrow> session" where
  "next_message_number s = s\<lparr>message_number := message_number s + 1\<rparr>"

section \<open>Notifications\<close>

text \<open>
  \<^verbatim>\<open>capi_connection_connect\<close>, \<^verbatim>\<open>capi_connection_disconnect\<close> and \<^verbatim>\<open>connection_status\<close>:
  look the connection up in the application's registry by id and, when it is there, post
  the callback.  The status code is not passed on.
\<close>

definition post_if_registered :: "env \<Rightarrow> capi_state \<Rightarrow> nat \<Rightarrow> notification \<Rightarrow> fault + capi_state" where
  "post_if_registered e g i n =
     and_then (deref g i) (\<lambda>c.
       Inr (if rm_connection_find_by_id e (now g) (conn_id c) then emit g (Post n (conn_id c)) else g))"

definition capi_connection_connect :: "env \<Rightarrow> capi_state \<Rightarrow> nat \<Rightarrow> fault + capi_state" where
  "capi_connection_connect e g i = post_if_registered e g i emit_connect"

definition capi_connection_disconnect :: "env \<Rightarrow> capi_state \<Rightarrow> nat \<Rightarrow> fault + capi_state" where
  "capi_connection_disconnect e g i = post_if_registered e g i emit_disconnect"

definition connection_status :: "env \<Rightarrow> capi_state \<Rightarrow> nat \<Rightarrow> nat \<Rightarrow> fault + capi_state" where
  "connection_status e g i status = post_if_registered e g i emit_status"

text \<open>
  \<^verbatim>\<open>connection_ring\<close>: the connection pointer is followed without a check; the target is
  searched for \<^verbatim>\<open>'#'\<close> and what follows it is the number registered with the application.
\<close>

definition after_hash :: "string \<Rightarrow> string" where
  "after_hash t = (if CHR ''#'' \<in> set t then tl (dropWhile (\<lambda>x. x \<noteq> CHR ''#'') t) else t)"

definition connection_ring :: "env \<Rightarrow> capi_state \<Rightarrow> nat option \<Rightarrow> fault + capi_state" where
  "connection_ring e g cp =
     (case cp of
        None \<Rightarrow> Inl NULL_DEREF
      | Some i \<Rightarrow>
          and_then (deref g i) (\<lambda>c.
            case target c of
              None \<Rightarrow> Inl NULL_DEREF
            | Some t \<Rightarrow>
                let g1 = emit g (Rm_connection_add (conn_id c) (after_hash t)
                                   (case source c of None \<Rightarrow> [] | Some s \<Rightarrow> s))
                in if rm_connection_add e (now g) (conn_id c)
                   then Inr (emit g1 (Post emit_incoming (conn_id c)))
                   else Inr g1))"

section \<open>Connection pool\<close>

text \<open>The loops \<^verbatim>\<open>for (i = 0; i < CAPI_CONNECTIONS; i++)\<close> that return at the first hit.\<close>

fun first_index :: "('a \<Rightarrow> bool) \<Rightarrow> 'a list \<Rightarrow> nat option" where
  "first_index P [] = None"
| "first_index P (x # xs) = (if P x then Some 0 else map_option Suc (first_index P xs))"

definition is_free :: "capi_connection \<Rightarrow> bool" where
  "is_free c \<longleftrightarrow> plci c = 0 \<and> ncci c = 0"

definition capi_connection_set_type ::
  "capi_state \<Rightarrow> nat \<Rightarrow> session_type \<Rightarrow> fault + (int \<times> capi_state)" where
  "capi_connection_set_type g i t =
     and_then (deref g i) (\<lambda>_.
       let g1 = modify g i (\<lambda>c. c\<lparr>type := t\<rparr>) in
       case t of
         SESSION_PHONE \<Rightarrow>
           Inr (0, modify g1 i (\<lambda>c. c\<lparr>init_data := Some capi_phone_init_data,
                                        data := Some capi_phone_data,
                                        clean := None,
                                        early_b3 := 1\<rparr>))
       | SESSION_FAX \<Rightarrow>
           Inr (0, modify g1 i (\<lambda>c. c\<lparr>init_data := Some capi_fax_init_data,
                                        data := Some capi_fax_data,
                                        clean := Some capi_fax_clean,
                                        early_b3 := 0\<rparr>))
       | _ \<Rightarrow> Inr (- 1, g_debug g1 ''Unhandled session type!!''))"

definition capi_get_free_connection :: "capi_state \<Rightarrow> nat option \<times> capi_state" where
  "capi_get_free_connection g =
     (case session g of
        None \<Rightarrow> (None, g)
      | Some s \<Rightarrow>
          (case first_index is_free (connection s) of
             None \<Rightarrow> (None, g)
           | Some i \<Rightarrow>
               (Some i,
                (modify g i (\<lambda>c. c\<lparr>conn_id := next_id g, state := STATE_IDLE\<rparr>))
                  \<lparr>next_id := (next_id g + 1) mod 2 ^ 32\<rparr>)))"

text \<open>\<^verbatim>\<open>capi_set_free\<close>; its return value is always 0 and no caller reads it.\<close>

definition capi_set_free :: "env \<Rightarrow> capi_state \<Rightarrow> nat \<Rightarrow> fault + capi_state" where
  "capi_set_free e g i =
     and_then (deref g i) (\<lambda>c.
       let g1 =
         (if priv c \<noteq> None then
            (case clean c of
               Some h \<Rightarrow> modify (emit g (Hook h i)) i (run_hook e h)
             | None \<Rightarrow> g_debug g ''Warning: Private data but no clean function'')
          else g)
       in Inr (modify g1 i (\<lambda>_. zero_connection)))"

section \<open>Hangup\<close>

definition set_state :: "capi_state \<Rightarrow> nat \<Rightarrow> conn_state \<Rightarrow> capi_state" where
  "set_state g i st = modify g i (\<lambda>c. c\<lparr>state := st\<rparr>)"

definition capi_hangup :: "env \<Rightarrow> capi_state \<Rightarrow> nat option \<Rightarrow> fault + capi_state" where
  "capi_hangup e g cp =
     (case cp of
        None \<Rightarrow> Inr g
      | Some i \<Rightarrow>
          and_then (deref g i) (\<lambda>c.
            if state c \<in> {STATE_CONNECT_WAIT, STATE_CONNECT_ACTIVE, STATE_DISCONNECT_B3_REQ,
                           STATE_DISCONNECT_B3_WAIT, STATE_DISCONNECT_ACTIVE, STATE_INCOMING_WAIT}
            then
              and_then (locked_request e (g_debug g ''REQ: DISCONNECT - plci %ld'')
                          (\<lambda>s. (DISCONNECT_REQ (appl_id s) 1 (plci c), s))) (\<lambda>(info, g1).
                if info \<noteq> 0
                then connection_status e (set_state g1 i STATE_IDLE) i info
                else Inr (set_state g1 i STATE_DISCONNECT_ACTIVE))
            else if state c \<in> {STATE_CONNECT_B3_WAIT, STATE_CONNECTED}
            then
              and_then (locked_request e (g_debug g ''REQ: DISCONNECT_B3 - ncci %ld'')
                          (\<lambda>s. (DISCONNECT_B3_REQ (appl_id s) 1 (ncci c), s))) (\<lambda>(info, g1).
                if info \<noteq> 0
                then
                  and_then (locked_request e g1
                              (\<lambda>s. (DISCONNECT_REQ (appl_id s) 1 (plci c), s))) (\<lambda>(info, g2).
                    if info \<noteq> 0
                    then connection_status e (set_state g2 i STATE_IDLE) i info
                    else Inr (set_state g2 i STATE_DISCONNECT_ACTIVE))
                else Inr (set_state g1 i STATE_DISCONNECT_B3_REQ))
            else if state c = STATE_RINGING
            then
              and_then (locked_request e (g_debug g ''RESP: CONNECT - plci %ld'')
                          (\<lambda>s. (CONNECT_RESP (appl_id s) (message_number s) (plci c) 3 0 0 0 None,
                                next_message_number s))) (\<lambda>(info, g1).
                if info \<noteq> 0
                then connection_status e (set_state g1 i STATE_IDLE) i info
                else Inr (set_state g1 i STATE_IDLE))
            else if state c = STATE_IDLE
            then Inr g
            else Inr (g_debug g ''Unexpected state 0x%x on disconnect'')))"

section \<open>Outbound call\<close>

text \<open>
  \<^verbatim>\<open>strncpy(dst, src, n)\<close> writes exactly \<open>n\<close> bytes: the characters of the source, cut
  at \<open>n\<close>, then NULs.  \<open>write_at\<close> stores bytes into an array from an offset on.
\<close>

definition strncpy_bytes :: "string \<Rightarrow> nat \<Rightarrow> byte list" where
  "strncpy_bytes src n = take n (map of_char src @ replicate n 0)"

definition write_at :: "'a list \<Rightarrow> nat \<Rightarrow> 'a list \<Rightarrow> 'a list" where
  "write_at arr off xs = take off arr @ xs @ drop (off + length xs) arr"

text \<open>The local array \<^verbatim>\<open>called_party_number[70]\<close> as \<^verbatim>\<open>capi_call\<close> fills it.\<close>

definition called_party_number :: "env \<Rightarrow> string \<Rightarrow> byte list" where
  "called_party_number e trg_no =
     (let a0 = map (uninit e) [0..<70];
          a1 = a0[0 := (1 + length trg_no) mod 256];
          a2 = a1[1 := 0x80]
      in write_at a2 2 (strncpy_bytes trg_no (70 - 3)))"

text \<open>The local array \<^verbatim>\<open>calling_party_number[70]\<close> as \<^verbatim>\<open>capi_call\<close> fills it.\<close>

definition calling_party_number :: "env \<Rightarrow> string \<Rightarrow> nat \<Rightarrow> bool \<Rightarrow> byte list" where
  "calling_party_number e src_no call_anonymous intern =
     (let a0 = map (uninit e) [70..<140];
          a1 = a0[1 := 0x00];
          a2 = a1[2 := 0x80];
          a3 = (if call_anonymous \<noteq> 0 then a2[2 := 0xA0] else a2)
      in if intern
         then write_at (a3[0 := 2 + 5]) 3 (strncpy_bytes ''**981'' (70 - 4))
         else write_at (a3[0 := (2 + length src_no) mod 256]) 3 (strncpy_bytes src_no (70 - 4)))"

text \<open>The arrays \<^verbatim>\<open>bc[4]\<close>, \<^verbatim>\<open>llc[3]\<close> and \<^verbatim>\<open>hlc[3]\<close>.\<close>

definition bc_llc_hlc :: "env \<Rightarrow> bool \<Rightarrow> nat \<Rightarrow> byte list \<times> byte list \<times> byte list" where
  "bc_llc_hlc e intern cip =
     (let bc = (if intern then [0x03, 0xE0, 0x90, 0xA3] else [0, 0, 0, 0]);
          llc = [0x02, 0x80, 0x90];
          hlc = map (uninit e) [147..<150]
      in if cip = 0x04 then (bc, llc, [0x02, 0x91, 0x81])
         else if cip = 0x11 then ([0, 0, 0, 0], [0, 0, 0], [0, 0, 0])
         else (bc, llc, hlc))"

definition capi_error :: "capi_state \<Rightarrow> nat \<Rightarrow> capi_state" where
  "capi_error g error =
     (if error \<noteq> 0 then
        (let g1 = g_debug g ''->Error: 0x%lX'' in
         if error = 0x3301 then g_debug g1 ''Protocol Error Layer 1''
         else if error = 0x2001 then g_debug g1 ''Message not supported in current state''
         else g1)
      else g)"

text \<open>
  The arguments of \<^verbatim>\<open>CONNECT_REQ\<close> as \<^verbatim>\<open>capi_call\<close> prepares them; \<open>intern\<close> is
  \<^verbatim>\<open>(trg_no[0] == '*') || (trg_no[0] == '#')\<close>.
\<close>

definition connect_request_of ::
  "env \<Rightarrow> nat \<Rightarrow> string \<Rightarrow> string \<Rightarrow> nat \<Rightarrow> nat \<Rightarrow>
   nat \<Rightarrow> nat \<Rightarrow> nat \<Rightarrow> byte list option \<Rightarrow> byte list option \<Rightarrow> byte list option \<Rightarrow>
   connect_request" where
  "connect_request_of e controller src trg call_anonymous cip
     b1_protocol b2_protocol b3_protocol b1_configuration b2_configuration b3_configuration =
     (let intern = (trg \<noteq> [] \<and> (hd trg = CHR ''*'' \<or> hd trg = CHR ''#'')) in
      case bc_llc_hlc e intern cip of (bc, llc, hlc) \<Rightarrow>
        \<lparr>Controller = controller, CIPValue_req = cip,
         CalledPartyNumber_req = called_party_number e trg,
         CallingPartyNumber_req = calling_party_number e src call_anonymous intern,
         B1protocol = b1_protocol, B2protocol = b2_protocol, B3protocol = b3_protocol,
         B1configuration = b1_configuration,
         B2configuration = b2_configuration,
         B3configuration = b3_configuration,
         BC = bc, LLC = llc, HLC = hlc\<rparr>)"

definition capi_call ::
  "env \<Rightarrow> capi_state \<Rightarrow> nat \<Rightarrow> string option \<Rightarrow> string option \<Rightarrow> nat \<Rightarrow> session_type \<Rightarrow> nat \<Rightarrow>
   nat \<Rightarrow> nat \<Rightarrow> nat \<Rightarrow> byte list option \<Rightarrow> byte list option \<Rightarrow> byte list option \<Rightarrow>
   fault + (nat option \<times> capi_state)" where
  "capi_call e g controller src_no trg_no call_anonymous t cip
     b1_protocol b2_protocol b3_protocol b1_configuration b2_configuration b3_configuration =
     (case trg_no of
        None \<Rightarrow> Inl NULL_DEREF
      | Some trg \<Rightarrow>
          if session g = None then Inr (None, g)
          else
            (case src_no of
               None \<Rightarrow> Inr (None, g_debug g ''Wrong phone numbers!'')
             | Some src \<Rightarrow>
                 if length src < 1 \<or> length trg < 1
                 then Inr (None, g_debug g ''Wrong phone numbers!'')
                 else
                   (case capi_get_free_connection (g_debug g ''REQ: CONNECT (%s->%s)'') of
                      (None, g1) \<Rightarrow> Inr (None, g1)
                    | (Some i, g1) \<Rightarrow>
                        and_then (capi_connection_set_type g1 i t) (\<lambda>(_, g2).
                        and_then (locked_request e g2
                          (\<lambda>s. (CONNECT_REQ (appl_id s) 0
                                  (connect_request_of e controller src trg call_anonymous cip
                                     b1_protocol b2_protocol b3_protocol
                                     b1_configuration b2_configuration b3_configuration), s)))
                          (\<lambda>(err, g3).
                        if err \<noteq> 0
                        then
                          and_then (capi_set_free e
                                      (capi_error (g_debug g3 ''(%d) Unable to send CONNECT_REQ!'') err) i)
                            (\<lambda>g4. Inr (None, g4))
                        else
                          Inr (Some i, modify g3 i (\<lambda>c. c\<lparr>target := Some trg, source := Some src\<rparr>)))))))"

section \<open>Pickup\<close>

definition capi_pickup ::
  "env \<Rightarrow> capi_state \<Rightarrow> nat option \<Rightarrow> session_type \<Rightarrow> fault + (int \<times> capi_state)" where
  "capi_pickup e g cp t =
     (case cp of
        None \<Rightarrow> Inl NULL_DEREF
      | Some i \<Rightarrow>
          and_then (capi_connection_set_type g i t) (\<lambda>(_, g1).
          and_then (deref g1 i) (\<lambda>c.
            if state c \<noteq> STATE_RINGING
            then Inr (- 1, g_debug g1 ''CAPI Pickup called, even if not ringing'')
            else
              and_then (locked_request e (g_debug g1 ''RESP: CAPI_CONNECT_RESP - plci %ld'')
                          (\<lambda>s. (CONNECT_RESP (appl_id s) (message_number s) (plci c) 0 1 1 0
                                   (Some [0x00, 0x00, 0x00, 0x00]),
                                 next_message_number s))) (\<lambda>(_, g2).
                Inr (0, set_state g2 i STATE_INCOMING_WAIT)))))"

section \<open>Received messages\<close>

text \<open>
  The decoded message \<^verbatim>\<open>_cmsg\<close> of the CAPI library, with the members the code reads.
  The address member is one union for controller, PLCI and NCCI.  A structure member is
  the memory from its pointer on, a NULL pointer is \<open>None\<close>.
\<close>

datatype command =
    CAPI_ALERT
  | CAPI_CONNECT
  | CAPI_CONNECT_ACTIVE
  | CAPI_CONNECT_B3
  | CAPI_CONNECT_B3_ACTIVE
  | CAPI_DATA_B3
  | CAPI_DISCONNECT
  | CAPI_DISCONNECT_B3
  | CAPI_FACILITY
  | CAPI_INFO
  | CAPI_LISTEN
  | CAPI_OTHER_COMMAND nat

datatype subcommand =
    CAPI_REQ
  | CAPI_CONF
  | CAPI_IND
  | CAPI_RESP
  | CAPI_OTHER_SUBCOMMAND nat

record cmsg =
  Command :: command
  Subcommand :: subcommand
  adr :: nat
  CIPValue :: nat
  CallingPartyNumber :: "byte list option"
  CalledPartyNumber :: "byte list option"
  InfoElement :: "byte list option"
  InfoNumber :: nat
  Info :: nat
  Reason :: nat
  Reason_B3 :: nat
  NCPI :: "byte list option"
  FacilitySelector :: nat
  FacilityIndicationParameter :: "byte list option"
  DataHandle :: nat

definition read_bytes :: "byte list \<Rightarrow> nat \<Rightarrow> nat \<Rightarrow> fault + byte list" where
  "read_bytes mem off n =
     (if off + n \<le> length mem then Inr (take n (drop off mem)) else Inl OUT_OF_BOUNDS)"

definition read_byte :: "byte list \<Rightarrow> nat \<Rightarrow> fault + byte" where
  "read_byte mem off = (if off < length mem then Inr (mem ! off) else Inl OUT_OF_BOUNDS)"

text \<open>The string that a zeroed buffer holds after bytes were copied to its start.\<close>

definition c_string :: "byte list \<Rightarrow> string" where
  "c_string bs = map char_of (takeWhile (\<lambda>b. b \<noteq> 0) bs)"

definition or_anonymous :: "string \<Rightarrow> string" where
  "or_anonymous number = (if length number = 0 then ''anonymous'' else number)"

definition capi_get_source_no :: "cmsg \<Rightarrow> fault + string" where
  "capi_get_source_no m =
     (let pnX = (case CallingPartyNumber m of None \<Rightarrow> InfoElement m | Some x \<Rightarrow> Some x) in
      and_then (case pnX of None \<Rightarrow> Inr 0 | Some x \<Rightarrow> read_byte x 0) (\<lambda>len.
        if len \<le> 1 then Inr (or_anonymous ''unknown'')
        else
          (case pnX of
             None \<Rightarrow> Inl NULL_DEREF
           | Some x \<Rightarrow>
               and_then (read_byte x 2) (\<lambda>b2.
                 if b2 AND 128 \<noteq> 0
                 then and_then (read_bytes x 3 (len - 2)) (\<lambda>d. Inr (or_anonymous (c_string d)))
                 else and_then (read_bytes x 2 (len - 1)) (\<lambda>d. Inr (or_anonymous (c_string d)))))))"

definition capi_get_target_no :: "cmsg \<Rightarrow> fault + string" where
  "capi_get_target_no m =
     (let x = (case CalledPartyNumber m of None \<Rightarrow> InfoElement m | Some y \<Rightarrow> Some y) in
      and_then (case x of None \<Rightarrow> Inr 0 | Some y \<Rightarrow> read_byte y 0) (\<lambda>len.
        if len \<le> 1 then Inr (or_anonymous ''unknown'')
        else
          (case x of
             None \<Rightarrow> Inl NULL_DEREF
           | Some y \<Rightarrow>
               and_then (read_bytes y 2 (len - 1)) (\<lambda>d. Inr (or_anonymous (c_string d))))))"

section \<open>Lookup\<close>

definition capi_find_plci :: "capi_state \<Rightarrow> nat \<Rightarrow> fault + nat option" where
  "capi_find_plci g p =
     and_then (get_session g) (\<lambda>s. Inr (first_index (\<lambda>c. plci c = p) (connection s)))"

definition capi_find_new :: "capi_state \<Rightarrow> fault + nat option" where
  "capi_find_new g =
     and_then (get_session g) (\<lambda>s.
       Inr (first_index (\<lambda>c. plci c = 0 \<and> type c \<noteq> SESSION_NONE) (connection s)))"

definition capi_find_ncci :: "capi_state \<Rightarrow> nat \<Rightarrow> fault + nat option" where
  "capi_find_ncci g n =
     and_then (get_session g) (\<lambda>s. Inr (first_index (\<lambda>c. ncci c = n) (connection s)))"

section \<open>Closing\<close>

fun close_loop :: "env \<Rightarrow> capi_state \<Rightarrow> nat list \<Rightarrow> fault + capi_state" where
  "close_loop e g [] = Inr g"
| "close_loop e g (index # rest) =
     and_then (deref g index) (\<lambda>c.
       if plci c \<noteq> 0 \<or> ncci c \<noteq> 0
       then and_then (capi_hangup e g (Some index)) (\<lambda>g1. close_loop e (emit g1 (Usleep 25)) rest)
       else close_loop e g rest)"

text \<open>\<^verbatim>\<open>capi_close\<close>; its return value is always 0.\<close>

definition capi_close :: "env \<Rightarrow> capi_state \<Rightarrow> fault + capi_state" where
  "capi_close e g =
     (case session g of
        None \<Rightarrow> Inr g
      | Some s \<Rightarrow>
          if appl_id s \<noteq> - 1
          then
            and_then (close_loop e g [0..<length (connection s)]) (\<lambda>g1.
            and_then (get_session g1) (\<lambda>s1.
              Inr ((emit g1 (CAPI20_RELEASE (appl_id s1)))\<lparr>session := Some (s1\<lparr>appl_id := - 1\<rparr>)\<rparr>)))
          else Inr g)"

section \<open>Responses and facility requests\<close>

definition capi_resp_connection :: "env \<Rightarrow> capi_state \<Rightarrow> nat \<Rightarrow> nat \<Rightarrow> fault + capi_state" where
  "capi_resp_connection e g p ignore =
     (if ignore = 0
      then
        and_then (locked_request e (g_debug g ''REQ: ALERT - plci %d'')
                    (\<lambda>s. (ALERT_REQ (appl_id s) 0 p, s))) (\<lambda>(_, g1). Inr g1)
      else
        and_then (locked_request e g
                    (\<lambda>s. (CONNECT_RESP (appl_id s) (message_number s) p ignore 1 1 0 None,
                          next_message_number s))) (\<lambda>(_, g1). Inr g1))"

definition capi_enable_dtmf :: "env \<Rightarrow> capi_state \<Rightarrow> nat \<Rightarrow> fault + capi_state" where
  "capi_enable_dtmf e g i =
     and_then (deref g i) (\<lambda>c.
     and_then (locked_request e (g_debug g ''Enable DTMF for PLCI %ld'')
                 (\<lambda>s. (FACILITY_REQ (appl_id s) 0 (plci c) 0x01
                         [10, 0x01, 0x00, 0x40, 0x00, 0x40, 0x00, 0x00, 0x02, 0x00, 0x00], s)))
       (\<lambda>(_, g1). Inr g1))"

text \<open>\<^verbatim>\<open>connection_code\<close> only writes a debug line.\<close>

definition isdigit :: "byte \<Rightarrow> bool" where
  "isdigit b \<longleftrightarrow> 48 \<le> b \<and> b \<le> 57"

definition capi_get_dtmf_code :: "capi_state \<Rightarrow> nat \<Rightarrow> byte \<Rightarrow> capi_state" where
  "capi_get_dtmf_code g i dtmf =
     (if dtmf = 0 then g
      else if \<not> isdigit dtmf \<and> dtmf \<noteq> of_char CHR ''#'' \<and> dtmf \<noteq> of_char CHR ''*'' then g
      else g_debug g ''connection_code(): code 0x%x'')"

section \<open>Indications\<close>

text \<open>
  \<^verbatim>\<open>capi_indication\<close> is one switch over the command; each case is a definition of its
  own here, and \<open>capi_indication\<close> below is the switch.  Its return value is always 0.
\<close>

definition ind_connect :: "env \<Rightarrow> capi_state \<Rightarrow> cmsg \<Rightarrow> fault + capi_state" where
  "ind_connect e g m =
     (let p = adr m; cip = CIPValue m in
      and_then (capi_get_source_no m) (\<lambda>source_phone_number.
      and_then (capi_get_target_no m) (\<lambda>target_phone_number.
        let g1 = g_debug g ''IND: CAPI_CONNECT - plci %d, source %s, target %s, cip: %d'';
            reject = (cip \<noteq> 16 \<and> cip \<noteq> 1 \<and> cip \<noteq> 4 \<and> cip \<noteq> 17)
        in
        if (if ACCEPT_INTERN e then reject \<and> take 2 source_phone_number \<noteq> ''**'' else reject)
        then
          capi_resp_connection e
            (g_debug g1 ''IND: CAPI_CONNECT - plci: %d, ncci: %d - IGNORING (%s <- %s)'') p 1
        else
          (case capi_get_free_connection g1 of
             (None, g2) \<Rightarrow> Inl NULL_DEREF
           | (Some i, g2) \<Rightarrow>
               capi_resp_connection e
                 (modify g2 i (\<lambda>c. c\<lparr>type := SESSION_NONE,
                                      state := STATE_RINGING,
                                      plci := p,
                                      source := Some source_phone_number,
                                      target := Some target_phone_number\<rparr>)) p 0))))"

text \<open>
  Opening the audio device for a phone connection, as the three places of the source do
  it; \<open>msg\<close> says whether \<^verbatim>\<open>rm_object_emit_message\<close> is called on failure, \<open>st\<close> is the
  state set when the device opens (when the source sets one there).
\<close>

definition open_audio ::
  "env \<Rightarrow> capi_state \<Rightarrow> nat \<Rightarrow> bool \<Rightarrow> conn_state option \<Rightarrow> fault + capi_state" where
  "open_audio e g i msg st =
     (let a = rm_audio_open e (now g);
          g1 = modify (emit g Audio_open) i (\<lambda>c. c\<lparr>audio := a\<rparr>)
      in case a of
           None \<Rightarrow>
             (let g2 = g_debug g1 ''Could not open audio. Hangup'';
                  g3 = (if msg then emit g2 (Emit_message ''Audio error'' ''Could not open audio. Hangup'')
                        else g2)
              in and_then (capi_hangup e g3 (Some i)) (\<lambda>g4.
                   Inr (modify g4 i (\<lambda>c. c\<lparr>audio := None\<rparr>))))
         | Some _ \<Rightarrow>
             Inr (case st of None \<Rightarrow> g1 | Some s \<Rightarrow> set_state g1 i s))"

definition ind_connect_active :: "env \<Rightarrow> capi_state \<Rightarrow> cmsg \<Rightarrow> fault + capi_state" where
  "ind_connect_active e g m =
     (let p = adr m;
          g0 = g_debug (g_debug g ''IND: CAPI_CONNECT_ACTIVE - plci %d'')
                 ''RESP: CAPI_CONNECT_ACTIVE - plci %d''
      in
      and_then (locked_request e g0
                  (\<lambda>s. (CONNECT_ACTIVE_RESP (appl_id s) (message_number s) p,
                        next_message_number s))) (\<lambda>(_, g1).
      and_then (capi_find_plci g1 p) (\<lambda>cp.
        case cp of
          None \<Rightarrow> Inr (g_debug g1 ''Wrong PLCI 0x%x'')
        | Some i \<Rightarrow>
            and_then (deref g1 i) (\<lambda>c.
              let g2 = g_debug g1 ''IND: CAPI_CONNECT_ACTIVE - connection: %d, plci: %ld'' in
              if state c = STATE_INCOMING_WAIT
              then
                (let g3 = modify g2 i (\<lambda>c. c\<lparr>connect_time := time_now e (now g2),
                                               state := STATE_CONNECT_ACTIVE\<rparr>)
                 in if type c = SESSION_PHONE then open_audio e g3 i False None else Inr g3)
              else if early_b3 c = 0
              then
                and_then (locked_request e (g_debug g2 ''REQ: CONNECT_B3 - nplci %d'')
                            (\<lambda>s. (CONNECT_B3_REQ (appl_id s) 0 p, s))) (\<lambda>(info, g3).
                  if info \<noteq> 0
                  then and_then (connection_status e g3 i info) (\<lambda>g4. capi_hangup e g4 (Some i))
                  else
                    (let g4 = modify g3 i (\<lambda>c. c\<lparr>connect_time := time_now e (now g3),
                                                   state := STATE_CONNECT_ACTIVE\<rparr>)
                     in if type c = SESSION_PHONE then open_audio e g4 i True None else Inr g4))
              else Inr g2))))"

definition ind_connect_b3 :: "env \<Rightarrow> capi_state \<Rightarrow> cmsg \<Rightarrow> fault + capi_state" where
  "ind_connect_b3 e g m =
     (let n = adr m; p = n AND 0x0000ffff; g0 = g_debug g ''IND: CAPI_CONNECT_B3'' in
      and_then (capi_find_plci g0 p) (\<lambda>cp.
        case cp of
          None \<Rightarrow> Inr g0
        | Some i \<Rightarrow>
            and_then (locked_request e g0
                        (\<lambda>s. (CONNECT_B3_RESP (appl_id s) (message_number s) n,
                              next_message_number s))) (\<lambda>(_, g1).
            and_then (deref g1 i) (\<lambda>c.
              if state c = STATE_CONNECT_ACTIVE
              then Inr (modify g1 i (\<lambda>c. c\<lparr>ncci := n, state := STATE_CONNECT_B3_WAIT\<rparr>))
              else capi_hangup e g1 (Some i)))))"

definition ind_connect_b3_active :: "env \<Rightarrow> capi_state \<Rightarrow> cmsg \<Rightarrow> fault + capi_state" where
  "ind_connect_b3_active e g m =
     (let n = adr m; p = n AND 0x0000ffff; g0 = g_debug g ''IND: CAPI_CONNECT_B3_ACTIVE'' in
      and_then (capi_find_plci g0 p) (\<lambda>cp.
        case cp of
          None \<Rightarrow> Inr (g_debug g0 ''Wrong NCCI, got 0x%x'')
        | Some i \<Rightarrow>
            (case NCPI m of
               None \<Rightarrow> Inl NULL_DEREF
             | Some mem \<Rightarrow>
                 and_then (read_byte mem 0) (\<lambda>l.
                 and_then (read_bytes mem 0 (l + 1)) (\<lambda>copy.
                   let g1 = modify g0 i (\<lambda>c. c\<lparr>ncci := n, ncpi := Some copy\<rparr>);
                       g2 = foldl g_debug (g_debug g1 ''NCPI len: %d'')
                              (replicate (l + 1) ''%2.2x <-> %c'')
                   in
                   and_then (locked_request e g2
                               (\<lambda>s. (CONNECT_B3_ACTIVE_RESP (appl_id s) (message_number s) n,
                                     next_message_number s))) (\<lambda>(_, g3).
                   and_then (capi_enable_dtmf e (set_state g3 i STATE_CONNECTED) i) (\<lambda>g4.
                   and_then (deref g4 i) (\<lambda>c.
                     capi_connection_connect e
                       (case init_data c of
                          None \<Rightarrow> g4
                        | Some h \<Rightarrow> modify (emit g4 (Hook h i)) i (run_hook e h)) i))))))))"

definition ind_data_b3 :: "env \<Rightarrow> capi_state \<Rightarrow> cmsg \<Rightarrow> fault + capi_state" where
  "ind_data_b3 e g m =
     and_then (capi_find_ncci g (adr m)) (\<lambda>cp.
       case cp of
         None \<Rightarrow> Inl ASSERT_FAILED
       | Some i \<Rightarrow>
           and_then (deref g i) (\<lambda>c.
             case data c of
               None \<Rightarrow> Inl NULL_DEREF
             | Some h \<Rightarrow>
                 (let g1 = modify (emit g (Hook h i)) i (run_hook e h) in
                  and_then (deref g1 i) (\<lambda>c1.
                  and_then (locked_request e g1
                              (\<lambda>s. (DATA_B3_RESP (appl_id s) (message_number s) (ncci c1)
                                      (DataHandle m),
                                    next_message_number s))) (\<lambda>(_, g2). Inr g2)))))"

definition ind_facility :: "env \<Rightarrow> capi_state \<Rightarrow> cmsg \<Rightarrow> fault + capi_state" where
  "ind_facility e g m =
     (let n = adr m; p = n AND 0x0000ffff; g0 = g_debug g ''IND: CAPI_FACILITY'' in
      and_then (locked_request e g0
                  (\<lambda>s. (FACILITY_RESP (appl_id s) (message_number s) p (FacilitySelector m)
                          (case FacilityIndicationParameter m of None \<Rightarrow> [] | Some x \<Rightarrow> x),
                        next_message_number s))) (\<lambda>(_, g1).
      and_then (capi_find_plci g1 p) (\<lambda>cp.
        case cp of
          None \<Rightarrow> Inr g1
        | Some i \<Rightarrow>
            (let g2 = g_debug g1 ''IND: CAPI_FACILITY %d'' in
             if FacilitySelector m = 0x0001
             then
               (case FacilityIndicationParameter m of
                  None \<Rightarrow> Inl NULL_DEREF
                | Some x \<Rightarrow> and_then (read_byte x 1) (\<lambda>dtmf. Inr (capi_get_dtmf_code g2 i dtmf)))
             else if FacilitySelector m = 0x0003
             then
               (case FacilityIndicationParameter m of
                  None \<Rightarrow> Inl NULL_DEREF
                | Some x \<Rightarrow>
                    and_then (read_byte x 1) (\<lambda>x1.
                    and_then (read_byte x 3) (\<lambda>x3.
                    and_then (read_bytes x 0 6) (\<lambda>_.
                      let nTmp = x1 OR push_bit 8 x3;
                          g3 = g_debug g2 ''%x %x %x %x %x %x''
                      in
                      if nTmp = 0x0203
                      then
                        and_then (locked_request e (g_debug g3 ''FACILITY: RETRIEVE'')
                                    (\<lambda>s. (CONNECT_B3_REQ (appl_id s) 0 p, s))) (\<lambda>(info, g4).
                          if info \<noteq> 0
                          then and_then (connection_status e g4 i info)
                                 (\<lambda>g5. capi_hangup e g5 (Some i))
                          else Inr (set_state g4 i STATE_CONNECT_ACTIVE))
                      else if nTmp = 0x0202
                      then Inr (g_debug g3 ''FACILITY: HOLD'')
                      else Inr (g_debug g3 ''FACILITY: Unknown %x'')))))
             else Inr (g_debug g2 ''Unhandled facility selector!! %x'')))))"

text \<open>
  The debug lines of the switch over the info number (every case but \<open>0x8045\<close>).  The
  array \<^verbatim>\<open>info_element\<close> is of \<^verbatim>\<open>char\<close>, taken as signed.
\<close>

definition schar :: "byte \<Rightarrow> int" where
  "schar b = (if b < 128 then int b else int b - 256)"

definition progress_line :: "byte \<Rightarrow> string" where
  "progress_line b =
     (let d = b AND 0x7F in
      if d = 0x01 then ''CAPI_INFO - Not end-to-end ISDN''
      else if d = 0x02 then ''CAPI_INFO - Destination is non ISDN''
      else if d = 0x03 then ''CAPI_INFO - Origination is non ISDN''
      else if d = 0x04 then ''CAPI_INFO - Call returned to ISDN''
      else if d = 0x05 then ''CAPI_INFO - Interworking occurred''
      else if d = 0x08 then ''CAPI_INFO - In-band information available''
      else ''CAPI_INFO - Unknown progress description 0x%02x'')"

definition notification_line :: "byte \<Rightarrow> string" where
  "notification_line b =
     (let u = schar b mod 2 ^ 32 in
      if u = 0 then ''CAPI_INFO - NI - CALL SUSPENDED (%d)''
      else if u = 1 then ''CAPI_INFO - NI - CALL RESUMED (%d)''
      else if u = 2 then ''CAPI_INFO - NI - BEARER SERVICE CHANGED (%d)''
      else if u = 0xF9 then ''CAPI_INFO - NI - PUT ON HOLD (%d)''
      else if u = 0xFA then ''CAPI_INFO - NI - RETRIEVED FROM HOLD (%d)''
      else ''CAPI_INFO - NI - UNKNOWN (%d)'')"

definition info_lines :: "nat \<Rightarrow> byte list \<Rightarrow> string list" where
  "info_lines info info_element =
     (if info = 0x0008 then [''CAPI_INFO - CAUSE'', ''Hangup cause: 0x%x'']
      else if info = 0x0014 then [''CAPI_INFO - CALL STATE (0x%02x)'']
      else if info = 0x0018 then [''CAPI_INFO - CHANNEL IDENTIFICATION (0x%02x)'']
      else if info = 0x001C then [''CAPI_INFO - FACILITY Q.932'']
      else if info = 0x001E then
        [''CAPI_INFO - PROGRESS INDICATOR (0x%02x)'',
         (if schar (info_element ! 0) < 2 then ''CAPI_INFO - Progress description missing''
          else progress_line (info_element ! 2))]
      else if info = 0x0027 then [notification_line (info_element ! 0)]
      else if info = 0x0028 then [''CAPI_INFO - DISPLAY'']
      else if info = 0x0029 then [''CAPI_INFO - DATE/TIME (%02d/%02d/%02d %02d:%02d)'']
      else if info = 0x002C then [''CAPI_INFO - KEYPAD FACILITY'']
      else if info = 0x006C then [''CAPI_INFO - CALLER PARTY NUMBER'']
      else if info = 0x0070 then [''CAPI_INFO - CALLED PARTY NUMBER'']
      else if info = 0x0074 then [''CAPI_INFO - REDIRECTING NUMBER'']
      else if info = 0x00A1 then [''CAPI_INFO - SENDING COMPLETE'']
      else if info = 0x4000 then [''CAPI_INFO - CHARGE IN UNITS'']
      else if info = 0x4001 then [''CAPI_INFO - CHARGE IN CURRENCY'']
      else if info = 0x8001 then [''CAPI_INFO - ALERTING (Setup early...)'']
      else if info = 0x8002 then [''CAPI_INFO - CALL PROCEEDING'']
      else if info = 0x8003 then [''CAPI_INFO - PROGRESS (Setup early...)'']
      else if info = 0x8005 then [''CAPI_INFO - SETUP'']
      else if info = 0x8007 then [''CAPI_INFO - CONNECT'']
      else if info = 0x800D then [''CAPI_INFO - SETUP ACK'']
      else if info = 0x800F then [''CAPI_INFO - CONNECT ACK'']
      else if info = 0x804D then [''CAPI_INFO - RELEASE'']
      else if info = 0x805A then [''CAPI_INFO - RELEASE COMPLETE'']
      else if info = 0x8062 then [''CAPI_INFO - FACILITY'']
      else if info = 0x806E then [''CAPI_INFO - NOTIFY'']
      else if info = 0x807B then [''CAPI_INFO - INFORMATION'']
      else if info = 0x807D then [''CAPI_INFO - STATUS'']
      else [''CAPI_INFO - UNKNOWN INFO (0x%02x)''])"

text \<open>
  The 128 bytes copied from the info element: what lies behind the element in the
  message buffer is not known.
\<close>

definition ind_info :: "env \<Rightarrow> capi_state \<Rightarrow> cmsg \<Rightarrow> fault + capi_state" where
  "ind_info e g m =
     (let p = adr m; info = InfoNumber m in
      and_then (locked_request e g
                  (\<lambda>s. (INFO_RESP (appl_id s) (message_number s) p, next_message_number s)))
        (\<lambda>(_, g1).
      case InfoElement m of
        None \<Rightarrow> Inl NULL_DEREF
      | Some el \<Rightarrow>
          let info_element = take 128 (el @ map (uninit e) [150..<278]) in
          and_then
            (if info = 0x8045
             then
               and_then (capi_find_plci g1 p) (\<lambda>cp.
                 let g2 = g_debug g1 ''CAPI_INFO - DISCONNECT'' in
                 case cp of
                   None \<Rightarrow> Inr g2
                 | Some i \<Rightarrow>
                     and_then (deref g2 i) (\<lambda>c.
                       if state c = STATE_CONNECTED \<and> type c = SESSION_FAX
                       then Inr (g_debug g2
                              ''CAPI_INFO - Fax mode and we are connected, wait for DISCONNECT_B3_IND'')
                       else capi_hangup e g2 (Some i)))
             else Inr (foldl g_debug g1 (info_lines info info_element))) (\<lambda>g3.
          and_then (capi_find_plci g3 p) (\<lambda>cp.
            case cp of
              None \<Rightarrow> Inr g3
            | Some i \<Rightarrow>
                and_then (deref g3 i) (\<lambda>c.
                  if early_b3 c \<noteq> 0 \<and> state c = STATE_CONNECT_WAIT \<and> info = 0x001E
                  then
                    and_then (locked_request e (g_debug g3 ''REQ: CONNECT_B3 - Early-B3'')
                                (\<lambda>s. (CONNECT_B3_REQ (appl_id s) 0 p, s))) (\<lambda>(_, g4).
                      let g5 = modify g4 i (\<lambda>c. c\<lparr>connect_time := time_now e (now g4)\<rparr>) in
                      if type c = SESSION_PHONE
                      then open_audio e g5 i True (Some STATE_CONNECT_ACTIVE)
                      else Inr (set_state g5 i STATE_CONNECT_ACTIVE))
                  else Inr g3)))))"

definition ind_disconnect_b3 :: "env \<Rightarrow> capi_state \<Rightarrow> cmsg \<Rightarrow> fault + capi_state" where
  "ind_disconnect_b3 e g m =
     (let n = adr m in
      and_then (locked_request e (g_debug g ''IND: DISCONNECT_B3'')
                  (\<lambda>s. (DISCONNECT_B3_RESP (appl_id s) (message_number s) n,
                        next_message_number s))) (\<lambda>(_, g1).
      and_then (capi_find_ncci g1 n) (\<lambda>cp.
        case cp of
          None \<Rightarrow> Inr (g_debug g1 ''connection not found'')
        | Some i \<Rightarrow>
            and_then (deref g1 i) (\<lambda>c.
              let g2 = modify g1 i (\<lambda>c. c\<lparr>reason_b3 := Reason_B3 m, ncci := 0\<rparr>) in
              and_then
                (if state c = STATE_CONNECTED \<or> state c = STATE_CONNECT_B3_WAIT
                 then Inr (set_state g2 i STATE_DISCONNECT_ACTIVE)
                 else capi_hangup e g2 (Some i))
                (\<lambda>g3. Inr (g_debug g3
                         ''IND: CAPI_DISCONNECT_B3 - connection: %d, plci: %ld, ncci: %ld''))))))"

text \<open>
  The wait for the audio input worker: \<^verbatim>\<open>input_thread_state\<close> is raised to 2 and the
  loop sleeps until another thread has set it to 0.  Whether that thread does is the
  environment's answer; the sleeps are one event.
\<close>

definition stop_input_thread :: "env \<Rightarrow> capi_state \<Rightarrow> fault + capi_state" where
  "stop_input_thread e g =
     and_then (get_session g) (\<lambda>s.
       if input_thread_state s = 1
       then
         (if input_thread_stops e (now g)
          then Inr (emit (g\<lparr>session := Some (s\<lparr>input_thread_state := 0\<rparr>)\<rparr>) (Usleep 10))
          else Inl SPIN_FOREVER)
       else Inr g)"

definition ind_disconnect :: "env \<Rightarrow> capi_state \<Rightarrow> cmsg \<Rightarrow> fault + capi_state" where
  "ind_disconnect e g m =
     (let p = adr m;
          g0 = g_debug (g_debug g ''IND: DISCONNECT - plci %d'') ''RESP: DISCONNECT - plci %d''
      in
      and_then (locked_request e g0
                  (\<lambda>s. (DISCONNECT_RESP (appl_id s) (message_number s) p,
                        next_message_number s))) (\<lambda>(_, g1).
      and_then (capi_find_plci g1 p) (\<lambda>cp.
        case cp of
          None \<Rightarrow> Inr (g_debug g1 ''Connection not found, IGNORING'')
        | Some i \<Rightarrow>
            (let g2 = modify g1 i (\<lambda>c. c\<lparr>reason := Reason m,
                                           state := STATE_IDLE,
                                           ncci := 0,
                                           plci := 0\<rparr>)
             in
             and_then (deref g2 i) (\<lambda>c.
             and_then
               (if type c = SESSION_PHONE
                then and_then (stop_input_thread e g2) (\<lambda>g3. Inr (emit g3 (Audio_close (audio c))))
                else Inr g2) (\<lambda>g4.
             and_then (capi_connection_disconnect e g4 i) (\<lambda>g5.
               capi_set_free e g5 i)))))))"

definition capi_indication :: "env \<Rightarrow> capi_state \<Rightarrow> cmsg \<Rightarrow> fault + capi_state" where
  "capi_indication e g capi_message =
     (case Command capi_message of
        CAPI_CONNECT \<Rightarrow> ind_connect e g capi_message
      | CAPI_CONNECT_ACTIVE \<Rightarrow> ind_connect_active e g capi_message
      | CAPI_CONNECT_B3 \<Rightarrow> ind_connect_b3 e g capi_message
      | CAPI_CONNECT_B3_ACTIVE \<Rightarrow> ind_connect_b3_active e g capi_message
      | CAPI_DATA_B3 \<Rightarrow> ind_data_b3 e g capi_message
      | CAPI_FACILITY \<Rightarrow> ind_facility e g capi_message
      | CAPI_INFO \<Rightarrow> ind_info e g capi_message
      | CAPI_DISCONNECT_B3 \<Rightarrow> ind_disconnect_b3 e g capi_message
      | CAPI_DISCONNECT \<Rightarrow> ind_disconnect e g capi_message
      | _ \<Rightarrow> Inr (g_debug g ''Unhandled command 0x%x''))"

section \<open>Confirmations\<close>

definition conf_alert :: "env \<Rightarrow> capi_state \<Rightarrow> cmsg \<Rightarrow> fault + capi_state" where
  "conf_alert e g m =
     (let info = Info m; p = adr m;
          g0 = g_debug (g_debug g ''CNF: CAPI_ALERT'') ''CNF: CAPI_ALERT: info %d, plci %d''
      in
      and_then (capi_find_plci g0 p) (\<lambda>cp.
        if info \<noteq> 0 \<and> info \<noteq> 3
        then (case cp of None \<Rightarrow> Inr g0 | Some i \<Rightarrow> Inr (set_state g0 i STATE_IDLE))
        else connection_ring e g0 cp))"

definition conf_data_b3 :: "capi_state \<Rightarrow> cmsg \<Rightarrow> fault + capi_state" where
  "conf_data_b3 g m =
     and_then (capi_find_ncci g (adr m)) (\<lambda>cp.
       case cp of
         None \<Rightarrow> Inr g
       | Some i \<Rightarrow>
           and_then (deref g i) (\<lambda>c.
             if use_buffers c \<noteq> 0 \<and> buffers c \<noteq> 0
             then Inr (modify g i (\<lambda>c. c\<lparr>buffers := buffers c - 1\<rparr>))
             else Inr g))"

definition conf_connect :: "env \<Rightarrow> capi_state \<Rightarrow> cmsg \<Rightarrow> fault + capi_state" where
  "conf_connect e g m =
     (let p = adr m; info = Info m;
          g0 = g_debug g ''CNF: CAPI_CONNECT - (plci: %d, info: %d)''
      in
      and_then (capi_find_new g0) (\<lambda>cp.
        case cp of
          None \<Rightarrow>
            Inr (g_debug g0
              (''CND: CAPI_CONNECT - Warning! Received confirmation but we didn'' @ [CHR 0x27] @
               ''t requested a connect!!!''))
        | Some i \<Rightarrow>
            if info \<noteq> 0
            then
              and_then (connection_status e (set_state g0 i STATE_IDLE) i info) (\<lambda>g1.
                capi_set_free e g1 i)
            else Inr (modify g0 i (\<lambda>c. c\<lparr>plci := p, state := STATE_CONNECT_WAIT\<rparr>))))"

definition capi_confirmation :: "env \<Rightarrow> capi_state \<Rightarrow> cmsg \<Rightarrow> fault + capi_state" where
  "capi_confirmation e g capi_message =
     (case Command capi_message of
        CAPI_FACILITY \<Rightarrow> Inr (g_debug g ''CNF: CAPI_FACILITY; Info: %d'')
      | CAPI_LISTEN \<Rightarrow> Inr g
      | CAPI_ALERT \<Rightarrow> conf_alert e g capi_message
      | CAPI_DATA_B3 \<Rightarrow> conf_data_b3 g capi_message
      | CAPI_INFO \<Rightarrow> Inr (g_debug g ''CNF: CAPI_INFO: info %d'')
      | CAPI_CONNECT \<Rightarrow> conf_connect e g capi_message
      | CAPI_CONNECT_B3 \<Rightarrow> Inr (capi_error (g_debug g ''CNF: CAPI_CONNECT_B3'') (Info capi_message))
      | CAPI_DISCONNECT \<Rightarrow> Inr (g_debug g ''CNF: CAPI_DISCONNECT'')
      | CAPI_DISCONNECT_B3 \<Rightarrow> Inr (g_debug g ''CNF: CAPI_DISCONNECT_B3'')
      | _ \<Rightarrow> Inr (g_debug g ''Unhandled confirmation, command 0x%x''))"

section \<open>Registration and the dispatch loop\<close>

fun listen_loop :: "env \<Rightarrow> capi_state \<Rightarrow> nat \<Rightarrow> int list \<Rightarrow> int \<times> capi_state" where
  "listen_loop e g appl [] = (int appl, g_debug g ''CAPI connection established!'')"
| "listen_loop e g appl (index # rest) =
     (let r = LISTEN_REQ (int appl) 0 (nat index);
          g1 = emit g (Wire r)
      in if transport e (now g) r \<noteq> 0
         then (- 3, g_debug g1 ''LISTEN_REQ failed, RC=0x%x'')
         else listen_loop e (g_debug g1 ''Listen to controller #%d ...'') appl rest)"

definition capi_init :: "env \<Rightarrow> capi_state \<Rightarrow> int \<Rightarrow> int \<times> capi_state" where
  "capi_init e g controller =
     (if CAPI20_ISINSTALLED e (now g) \<noteq> 0
      then (- 1, g_debug g ''CAPI 2.0: not installed, RC=0x%x'')
      else
        (case CAPI20_GET_PROFILE e (now g) of (rc, ncontroller) \<Rightarrow>
           if rc \<noteq> 0
           then (- 1, g_debug g ''CAPI 2.0: Error getting profile, RC=0x%x'')
           else if ncontroller = 0
           then (- 1, g_debug g ''CAPI 2.0: No ISDN controllers installed'')
           else
             (let start = (if controller \<le> 0 then 1 else controller);
                  end_c = (if controller \<le> 0 then int ncontroller else controller)
              in case CAPI20_REGISTER_result e (now g) of (error_code, appl) \<Rightarrow>
                   let g1 = emit g CAPI20_REGISTER in
                   if error_code \<noteq> 0 \<or> appl = 0
                   then (- 2, g_debug g1 ''Error while registering application, RC=0x%x'')
                   else listen_loop e g1 appl [start..end_c])))"

definition capi_reconnect :: "env \<Rightarrow> capi_state \<Rightarrow> fault + capi_state" where
  "capi_reconnect e g =
     and_then (isdn_lock g) (\<lambda>g1.
     and_then (capi_close e g1) (\<lambda>g2.
       case capi_init e g2 (- 1) of (a, g3) \<Rightarrow>
         and_then (get_session g3) (\<lambda>s.
           isdn_unlock (g3\<lparr>session := Some (s\<lparr>appl_id := a\<rparr>)\<rparr>))))"

text \<open>
  One turn of \<^verbatim>\<open>capi_loop\<close> as the outside decides it: the cancellable is cancelled at
  the head of the loop, or \<^verbatim>\<open>CAPI20_WaitforMessage\<close> returns a code and then either
  \<^verbatim>\<open>capi_get_cmsg\<close> returns a code and a message, or the cancellable is tested again.
  The loop runs as long as turns are given; its result says whether it has returned.
\<close>

datatype loop_input =
    Cancelled
  | Waited nat nat cmsg bool

datatype loop_result =
    Returned capi_state
  | Still_running capi_state
  | Crashed fault

definition CapiNoError :: nat where
  "CapiNoError = 0x0000"

definition CapiReceiveQueueEmpty :: nat where
  "CapiReceiveQueueEmpty = 0x1104"

definition G_USEC_PER_SEC :: nat where
  "G_USEC_PER_SEC = 1000000"

text \<open>Reading the message under the mutex.\<close>

definition get_cmsg_locked :: "capi_state \<Rightarrow> fault + capi_state" where
  "get_cmsg_locked g = and_then (isdn_lock g) isdn_unlock"

fun capi_loop :: "env \<Rightarrow> capi_state \<Rightarrow> loop_input list \<Rightarrow> loop_result" where
  "capi_loop e g [] = Still_running g"
| "capi_loop e g (Cancelled # rest) = Returned (g\<lparr>session := None\<rparr>)"
| "capi_loop e g (Waited ret info capi_message cancelled # rest) =
     (case session g of
        None \<Rightarrow> Crashed NULL_DEREF
      | Some s \<Rightarrow>
          if ret = CapiNoError
          then
            (case get_cmsg_locked g of
               Inl f \<Rightarrow> Crashed f
             | Inr g1 \<Rightarrow>
                 if info = CapiNoError
                 then
                   (case (if Subcommand capi_message = CAPI_IND then capi_indication e g1 capi_message
                          else if Subcommand capi_message = CAPI_CONF
                          then capi_confirmation e g1 capi_message
                          else Inr g1) of
                      Inl f \<Rightarrow> Crashed f
                    | Inr g2 \<Rightarrow> capi_loop e g2 rest)
                 else if info = CapiReceiveQueueEmpty
                 then
                   (case capi_reconnect e
                           (emit (g_debug g1 ''Empty queue, even if message pending.. reconnecting'')
                              (Usleep (1 * G_USEC_PER_SEC))) of
                      Inl f \<Rightarrow> Crashed f
                    | Inr g2 \<Rightarrow> capi_loop e g2 rest)
                 else Returned g1)
          else if \<not> cancelled
          then
            (if appl_id s = - 1
             then capi_loop e (emit g (Usleep (1 * G_USEC_PER_SEC))) rest
             else capi_loop e (emit g (Usleep 1)) rest)
          else capi_loop e g rest)"

section \<open>Sequences of pool operations, observations, sample inputs\<close>

datatype pool_op =
    Allocate
  | Release nat

fun pool_run :: "env \<Rightarrow> capi_state \<Rightarrow> pool_op list \<Rightarrow> fault + capi_state" where
  "pool_run e g [] = Inr g"
| "pool_run e g (Allocate # ops) = pool_run e (snd (capi_get_free_connection g)) ops"
| "pool_run e g (Release i # ops) = and_then (capi_set_free e g i) (\<lambda>g1. pool_run e g1 ops)"

definition slot :: "capi_state \<Rightarrow> nat \<Rightarrow> capi_connection option" where
  "slot g i =
     (case session g of
        None \<Rightarrow> None
      | Some s \<Rightarrow> if i < length (connection s) then Some (connection s ! i) else None)"


definition state_at :: "nat \<Rightarrow> fault + capi_state \<Rightarrow> conn_state option" where
  "state_at i r = (case r of Inl _ \<Rightarrow> None | Inr g \<Rightarrow> map_option state (slot g i))"

definition plci_at :: "nat \<Rightarrow> fault + capi_state \<Rightarrow> nat option" where
  "plci_at i r = (case r of Inl _ \<Rightarrow> None | Inr g \<Rightarrow> map_option plci (slot g i))"

definition events_of :: "fault + capi_state \<Rightarrow> event list option" where
  "events_of r = (case r of Inl _ \<Rightarrow> None | Inr g \<Rightarrow> Some (events g))"

definition returned_connection :: "fault + (nat option \<times> capi_state) \<Rightarrow> nat option" where
  "returned_connection r = (case r of Inl _ \<Rightarrow> None | Inr (cp, _) \<Rightarrow> cp)"

definition state_after :: "fault + ('a \<times> capi_state) \<Rightarrow> fault + capi_state" where
  "state_after r = (case r of Inl f \<Rightarrow> Inl f | Inr (_, g) \<Rightarrow> Inr g)"

fun is_connect_req :: "event \<Rightarrow> bool" where
  "is_connect_req (Wire (CONNECT_REQ _ _ _)) = True"
| "is_connect_req _ = False"

definition connect_requests :: "fault + capi_state \<Rightarrow> nat option" where
  "connect_requests r =
     (case r of Inl _ \<Rightarrow> None | Inr g \<Rightarrow> Some (length (filter is_connect_req (events g))))"

definition cmsg0 :: cmsg where
  "cmsg0 =
     \<lparr>Command = CAPI_OTHER_COMMAND 0, Subcommand = CAPI_OTHER_SUBCOMMAND 0, adr = 0,
      CIPValue = 0, CallingPartyNumber = None, CalledPartyNumber = None, InfoElement = None,
      InfoNumber = 0, Info = 0, Reason = 0, Reason_B3 = 0, NCPI = None,
      FacilitySelector = 0, FacilityIndicationParameter = None, DataHandle = 0\<rparr>"

text \<open>An outbound call and, if it returns, a confirmation right after it.\<close>

text \<open>An inbound voice call from 30 to 12 on PLCI 2, and a connect confirmation with PLCI 5.\<close>

definition inbound_voice_call :: cmsg where
  "inbound_voice_call =
     cmsg0\<lparr>Command := CAPI_CONNECT, Subcommand := CAPI_IND, adr := 2, CIPValue := 16,
            CallingPartyNumber := Some [4, 0x00, 0x80, 0x33, 0x30],
            CalledPartyNumber := Some [3, 0x80, 0x31, 0x32]\<rparr>"

definition connect_confirmed :: cmsg where
  "connect_confirmed = cmsg0\<lparr>Command := CAPI_CONNECT, Subcommand := CAPI_CONF, adr := 5, Info := 0\<rparr>"

definition call_then_confirm ::
  "env \<Rightarrow> capi_state \<Rightarrow> nat \<Rightarrow> string \<Rightarrow> string \<Rightarrow> nat \<Rightarrow> session_type \<Rightarrow> nat \<Rightarrow> cmsg \<Rightarrow>
   fault + capi_state" where
  "call_then_confirm e g controller src trg anon t cip m =
     and_then (state_after (capi_call e g controller (Some src) (Some trg) anon t cip 1 1 0
                              None None None))
       (\<lambda>g1. capi_confirmation e g1 m)"

text \<open>
  The entry points of the file and its pool functions as operations; a sequence of them
  runs until one of them does not return.
\<close>

datatype operation =
    Op_call nat "string option" "string option" nat session_type nat
  | Op_pickup "nat option" session_type
  | Op_hangup "nat option"
  | Op_indication cmsg
  | Op_confirmation cmsg
  | Op_reconnect
  | Op_get_free_connection
  | Op_set_free nat

fun run_op :: "env \<Rightarrow> capi_state \<Rightarrow> operation \<Rightarrow> fault + capi_state" where
  "run_op e g (Op_call controller src_no trg_no call_anonymous t cip) =
     state_after (capi_call e g controller src_no trg_no call_anonymous t cip 1 1 0 None None None)"
| "run_op e g (Op_pickup cp t) = state_after (capi_pickup e g cp t)"
| "run_op e g (Op_hangup cp) = capi_hangup e g cp"
| "run_op e g (Op_indication m) = capi_indication e g m"
| "run_op e g (Op_confirmation m) = capi_confirmation e g m"
| "run_op e g Op_reconnect = capi_reconnect e g"
| "run_op e g Op_get_free_connection = Inr (snd (capi_get_free_connection g))"
| "run_op e g (Op_set_free i) = capi_set_free e g i"

fun run :: "env \<Rightarrow> capi_state \<Rightarrow> operation list \<Rightarrow> fault + capi_state" where
  "run e g [] = Inr g"
| "run e g (op # ops) = and_then (run_op e g op) (\<lambda>g1. run e g1 ops)"

text \<open>An environment in which everything succeeds, and one whose transport refuses.\<close>

definition env_accept :: env where
  "env_accept =
     \<lparr>transport = (\<lambda>_ _. 0),
      rm_connection_find_by_id = (\<lambda>_ _. True),
      rm_connection_add = (\<lambda>_ _. True),
      rm_audio_open = (\<lambda>_. Some 1),
      input_thread_stops = (\<lambda>_. True),
      run_hook = (\<lambda>_ c. c),
      time_now = (\<lambda>_. 0),
      uninit = (\<lambda>_. 0),
      ACCEPT_INTERN = False,
      CAPI20_ISINSTALLED = (\<lambda>_. 0),
      CAPI20_GET_PROFILE = (\<lambda>_. (0, 1)),
      CAPI20_REGISTER_result = (\<lambda>_. (0, 1))\<rparr>"

definition env_refuse :: env where
  "env_refuse = env_accept\<lparr>transport := (\<lambda>_ _. 0x2001)\<rparr>"

definition session_of :: "capi_connection list \<Rightarrow> session" where
  "session_of cs =
     \<lparr>appl_id = 1, message_number = 0, isdn_mutex = False, connection = cs,
      input_thread_state = 0\<rparr>"

definition state_of :: "capi_connection list \<Rightarrow> capi_state" where
  "state_of cs = \<lparr>session = Some (session_of cs), next_id = 1024, events = [], debug = []\<rparr>"

section \<open>Basic facts\<close>

lemma and_then_Inr [simp]: "and_then (Inr a) f = f a"
  by (simp add: and_then_def)

lemma and_then_Inl [simp]: "and_then (Inl x) f = Inl x"
  by (simp add: and_then_def)

lemma first_index_None: "first_index P xs = None \<longleftrightarrow> (\<forall>x\<in>set xs. \<not> P x)"
  by (induction xs) auto

lemma first_index_Some:
  "first_index P xs = Some i \<Longrightarrow> i < length xs \<and> P (xs ! i) \<and> (\<forall>j<i. \<not> P (xs ! j))"
proof (induction xs arbitrary: i)
  case Nil
  then show ?case by simp
next
  case (Cons x xs)
  show ?case
  proof (cases "P x")
    case True
    with Cons.prems show ?thesis by simp
  next
    case False
    with Cons.prems obtain k where k: "first_index P xs = Some k" "i = Suc k"
      by auto
    from Cons.IH [OF k(1)] False k(2) show ?thesis
      by (auto simp: less_Suc_eq_0_disj)
  qed
qed

lemma session_modify:
  "session g = Some s \<Longrightarrow>
   session (modify g i f) = Some (s\<lparr>connection := (connection s)[i := f (connection s ! i)]\<rparr>)"
  by (simp add: modify_def)

lemma first_index_eqI:
  "i < length xs \<Longrightarrow> P (xs ! i) \<Longrightarrow> \<forall>j<i. \<not> P (xs ! j) \<Longrightarrow> first_index P xs = Some i"
proof (induction xs arbitrary: i)
  case Nil
  then show ?case by simp
next
  case (Cons x xs)
  show ?case
  proof (cases i)
    case 0
    with Cons.prems show ?thesis by simp
  next
    case (Suc k)
    with Cons.prems have "\<not> P x" by auto
    moreover from Suc Cons.prems have "first_index P xs = Some k"
      by (intro Cons.IH) auto
    ultimately show ?thesis using Suc by simp
  qed
qed

lemma locked_request_free:
  assumes "session g = Some s" and "\<not> isdn_mutex s"
  shows "locked_request e g mk =
           Inr (transport e (now g) (fst (mk (s\<lparr>isdn_mutex := True\<rparr>))),
                emit (g\<lparr>session := Some ((snd (mk (s\<lparr>isdn_mutex := True\<rparr>)))\<lparr>isdn_mutex := False\<rparr>)\<rparr>)
                  (Wire (fst (mk (s\<lparr>isdn_mutex := True\<rparr>)))))"
  using assms
  by (simp add: locked_request_def isdn_lock_def isdn_unlock_def put_request_def get_session_def
        emit_def now_def split: prod.splits)

lemmas step_defs = g_debug_def emit_def now_def set_state_def modify_def slot_def
  connection_status_def post_if_registered_def deref_def next_message_number_def

lemma mutex_free_upd [simp]: "\<not> isdn_mutex s \<Longrightarrow> s\<lparr>isdn_mutex := False\<rparr> = s"
  by simp

lemmas sample_defs = state_of_def session_of_def env_accept_def env_refuse_def cmsg0_def
  zero_connection_def state_at_def plci_at_def events_of_def

section \<open>The pool is bounded\<close>

lemma get_free_session:
  "session g = Some s \<Longrightarrow>
   \<exists>s'. session (snd (capi_get_free_connection g)) = Some s' \<and>
        length (connection s') = length (connection s)"
  by (auto simp: capi_get_free_connection_def session_modify split: option.splits)

lemma set_free_session:
  "session g = Some s \<Longrightarrow> i < length (connection s) \<Longrightarrow>
   \<exists>g' s'. capi_set_free e g i = Inr g' \<and> session g' = Some s' \<and>
        length (connection s') = length (connection s)"
  by (auto simp: capi_set_free_def deref_def session_modify emit_def g_debug_def Let_def
           split: option.splits)

lemma pool_run_total:
  "session g = Some s \<Longrightarrow> (\<forall>i. Release i \<in> set ops \<longrightarrow> i < length (connection s)) \<Longrightarrow>
   \<exists>g' s'. pool_run e g ops = Inr g' \<and> session g' = Some s' \<and>
        length (connection s') = length (connection s)"
proof (induction ops arbitrary: g s)
  case Nil
  then show ?case by simp
next
  case (Cons op ops)
  show ?case
  proof (cases op)
    case Allocate
    from get_free_session [OF Cons.prems(1)] obtain s1 where
      s1: "session (snd (capi_get_free_connection g)) = Some s1"
          "length (connection s1) = length (connection s)" by blast
    from Cons.IH [OF s1(1)] Cons.prems(2) s1(2) Allocate show ?thesis by simp
  next
    case (Release i)
    with Cons.prems(2) have "i < length (connection s)" by simp
    from set_free_session [OF Cons.prems(1) this, of e] obtain g1 s1 where
      s1: "capi_set_free e g i = Inr g1" "session g1 = Some s1"
          "length (connection s1) = length (connection s)" by blast
    from Cons.IH [OF s1(2)] Cons.prems(2) s1 Release show ?thesis by simp
  qed
qed

lemma get_free_full:
  "session g = Some s \<Longrightarrow> \<forall>c\<in>set (connection s). \<not> is_free c \<Longrightarrow>
   capi_get_free_connection g = (None, g)"
  using first_index_None [of is_free "connection s"]
  by (simp add: capi_get_free_connection_def)

text \<open>
  C2.  Whatever sequence of allocations and releases (of slots of the table) is run on a
  session whose table has N slots, the run ends, the table still has N slots, so at most N
  connections are not free; and when every slot of the table is occupied, an allocation
  returns no connection and leaves the whole state as it was.
\<close>

theorem pool_bounded:
  assumes "session g = Some s"
    and "\<forall>i. Release i \<in> set ops \<longrightarrow> i < length (connection s)"
  shows "\<exists>g' s'. pool_run e g ops = Inr g' \<and> session g' = Some s' \<and>
           length (connection s') = length (connection s) \<and>
           length (filter (\<lambda>c. \<not> is_free c) (connection s')) \<le> length (connection s) \<and>
           ((\<forall>c\<in>set (connection s'). \<not> is_free c) \<longrightarrow>
              capi_get_free_connection g' = (None, g'))"
proof -
  from pool_run_total [OF assms, of e] obtain g' s' where
    r: "pool_run e g ops = Inr g'" "session g' = Some s'"
       "length (connection s') = length (connection s)" by blast
  have "length (filter (\<lambda>c. \<not> is_free c) (connection s')) \<le> length (connection s')"
    by (rule length_filter_le)
  with r get_free_full [OF r(2)] show ?thesis by auto
qed

theorem pool_bounded_witness:
  "pool_run env_accept (state_of [zero_connection\<lparr>plci := 7\<rparr>, zero_connection\<lparr>ncci := 9\<rparr>])
     [Allocate] = Inr (state_of [zero_connection\<lparr>plci := 7\<rparr>, zero_connection\<lparr>ncci := 9\<rparr>]) \<and>
   capi_get_free_connection (state_of [zero_connection\<lparr>plci := 7\<rparr>, zero_connection\<lparr>ncci := 9\<rparr>])
     = (None, state_of [zero_connection\<lparr>plci := 7\<rparr>, zero_connection\<lparr>ncci := 9\<rparr>])"
proof -
  let ?cs = "[zero_connection\<lparr>plci := 7\<rparr>, zero_connection\<lparr>ncci := 9\<rparr>]"
  have a: "session (state_of ?cs) = Some (session_of ?cs)"
    by (simp add: state_of_def)
  have b: "\<forall>i. Release i \<in> set [Allocate] \<longrightarrow> i < length (connection (session_of ?cs))"
    by simp
  have full: "\<forall>c\<in>set (connection (session_of ?cs)). \<not> is_free c"
    by (simp add: session_of_def is_free_def)
  from pool_bounded [OF a b, of env_accept] obtain g' s' where
    r: "pool_run env_accept (state_of ?cs) [Allocate] = Inr g'" "session g' = Some s'"
       "(\<forall>c\<in>set (connection s'). \<not> is_free c) \<longrightarrow> capi_get_free_connection g' = (None, g')"
    by blast
  have "pool_run env_accept (state_of ?cs) [Allocate] = Inr (state_of ?cs)"
    using get_free_full [OF a full] by simp
  with r(1) have g': "g' = state_of ?cs" by simp
  with r(2) a have "s' = session_of ?cs" by simp
  with r(3) full g' show ?thesis
    using \<open>pool_run env_accept (state_of ?cs) [Allocate] = Inr (state_of ?cs)\<close> by simp
qed

section \<open>Hangup has a transition for every state\<close>

text \<open>
  C3 (as amended).  For a connection of the active session, with the session mutex not
  held, \<open>capi_hangup\<close> returns normally for every state and touches no other slot.  In the
  states CONNECT_WAIT, CONNECT_ACTIVE, DISCONNECT_B3_REQ, DISCONNECT_B3_WAIT,
  DISCONNECT_ACTIVE and INCOMING_WAIT it sends a disconnect request on the physical
  channel; in CONNECT_B3_WAIT and CONNECTED it sends one on the bearer channel and, when
  that is refused, one on the physical channel.  The connection moves to
  DISCONNECT_B3_REQ (bearer request accepted) or DISCONNECT_ACTIVE (physical request
  accepted); when the last request sent is refused it moves to IDLE and the status
  callback is posted if the connection is registered.  RINGING sends a connect response
  rejecting the call and moves to IDLE; IDLE changes nothing; any other state only writes
  a debug line.
\<close>

theorem hangup_transitions:
  assumes "session g = Some s" and "\<not> isdn_mutex s" and "i < length (connection s)"
    and "c = connection s ! i"
  shows "\<exists>g'. capi_hangup e g (Some i) = Inr g' \<and>
     (\<forall>j. j \<noteq> i \<longrightarrow> slot g' j = slot g j) \<and>
     (state c \<in> {STATE_CONNECT_WAIT, STATE_CONNECT_ACTIVE, STATE_DISCONNECT_B3_REQ,
                  STATE_DISCONNECT_B3_WAIT, STATE_DISCONNECT_ACTIVE, STATE_INCOMING_WAIT} \<longrightarrow>
        (let r = DISCONNECT_REQ (appl_id s) 1 (plci c); info = transport e (now g) r in
         events g' = events g @ [Wire r] @
           (if info \<noteq> 0 \<and> rm_connection_find_by_id e (Suc (now g)) (conn_id c)
            then [Post emit_status (conn_id c)] else []) \<and>
         slot g' i = Some (c\<lparr>state := if info = 0 then STATE_DISCONNECT_ACTIVE else STATE_IDLE\<rparr>))) \<and>
     (state c \<in> {STATE_CONNECT_B3_WAIT, STATE_CONNECTED} \<longrightarrow>
        (let r3 = DISCONNECT_B3_REQ (appl_id s) 1 (ncci c); info3 = transport e (now g) r3;
             r = DISCONNECT_REQ (appl_id s) 1 (plci c); info = transport e (Suc (now g)) r in
         if info3 = 0
         then events g' = events g @ [Wire r3] \<and>
              slot g' i = Some (c\<lparr>state := STATE_DISCONNECT_B3_REQ\<rparr>)
         else events g' = events g @ [Wire r3, Wire r] @
                (if info \<noteq> 0 \<and> rm_connection_find_by_id e (Suc (Suc (now g))) (conn_id c)
                 then [Post emit_status (conn_id c)] else []) \<and>
              slot g' i = Some (c\<lparr>state := if info = 0 then STATE_DISCONNECT_ACTIVE else STATE_IDLE\<rparr>))) \<and>
     (state c = STATE_RINGING \<longrightarrow>
        (let r = CONNECT_RESP (appl_id s) (message_number s) (plci c) 3 0 0 0 None;
             info = transport e (now g) r in
         events g' = events g @ [Wire r] @
           (if info \<noteq> 0 \<and> rm_connection_find_by_id e (Suc (now g)) (conn_id c)
            then [Post emit_status (conn_id c)] else []) \<and>
         slot g' i = Some (c\<lparr>state := STATE_IDLE\<rparr>))) \<and>
     (state c = STATE_IDLE \<longrightarrow> g' = g) \<and>
     ((\<exists>n. state c = STATE_OTHER n) \<longrightarrow> g' = g_debug g ''Unexpected state 0x%x on disconnect'')"
  using assms
  by (cases "state c")
     (auto simp: capi_hangup_def locked_request_free step_defs Let_def)

text \<open>
  The theorem at a connected call whose bearer disconnect the transport accepts: the
  connection moves to DISCONNECT_B3_REQ.
\<close>

theorem hangup_transitions_witness:
  "state_at 0 (capi_hangup env_accept
      (state_of [zero_connection\<lparr>plci := 1, ncci := 65537, state := STATE_CONNECTED\<rparr>]) (Some 0))
   = Some STATE_DISCONNECT_B3_REQ"
proof -
  let ?c = "zero_connection\<lparr>plci := 1, ncci := 65537, state := STATE_CONNECTED\<rparr>"
  have a: "session (state_of [?c]) = Some (session_of [?c])"
    by (simp add: state_of_def)
  have b: "\<not> isdn_mutex (session_of [?c])"
    by (simp add: session_of_def)
  have c: "0 < length (connection (session_of [?c]))"
    by (simp add: session_of_def)
  have d: "?c = connection (session_of [?c]) ! 0"
    by (simp add: session_of_def)
  from hangup_transitions [OF a b c d, of env_accept] obtain g' where
    "capi_hangup env_accept (state_of [?c]) (Some 0) = Inr g'"
    "state ?c \<in> {STATE_CONNECT_B3_WAIT, STATE_CONNECTED} \<longrightarrow>
       (let r3 = DISCONNECT_B3_REQ (appl_id (session_of [?c])) 1 (ncci ?c);
            info3 = transport env_accept (now (state_of [?c])) r3;
            r = DISCONNECT_REQ (appl_id (session_of [?c])) 1 (plci ?c);
            info = transport env_accept (Suc (now (state_of [?c]))) r in
        if info3 = 0
        then events g' = events (state_of [?c]) @ [Wire r3] \<and>
             slot g' 0 = Some (?c\<lparr>state := STATE_DISCONNECT_B3_REQ\<rparr>)
        else events g' = events (state_of [?c]) @ [Wire r3, Wire r] @
               (if info \<noteq> 0 \<and> rm_connection_find_by_id env_accept (Suc (Suc (now (state_of [?c])))) (conn_id ?c)
                then [Post emit_status (conn_id ?c)] else []) \<and>
             slot g' 0 = Some (?c\<lparr>state := if info = 0 then STATE_DISCONNECT_ACTIVE else STATE_IDLE\<rparr>))"
    by blast
  then show ?thesis
    by (simp add: state_at_def env_accept_def Let_def)
qed

text \<open>
  C3 as stated fails: a connection waiting for the connect, whose disconnect request the
  transport refuses, does not move to a DISCONNECT state but to IDLE.
\<close>

theorem hangup_refused_goes_idle:
  "state_at 0 (capi_hangup env_refuse
      (state_of [zero_connection\<lparr>plci := 1, state := STATE_CONNECT_WAIT\<rparr>]) (Some 0))
   = Some STATE_IDLE"
  by (simp add: capi_hangup_def locked_request_free [where s = "session_of [zero_connection\<lparr>plci := 1, state := STATE_CONNECT_WAIT\<rparr>]"]
        step_defs state_at_def state_of_def session_of_def env_refuse_def env_accept_def)

section \<open>Pickup of a connection that is not ringing\<close>

text \<open>
  C10.  For a connection of the session whose state is not RINGING, \<open>capi_pickup\<close>
  returns -1 and puts nothing on the wire (the events are as before), but the connection
  has been rebound: its kind is the requested one and, for phone and fax, initializer,
  payload handler, cleanup hook and early-bearer flag are those of that kind (for any
  other kind they stay as they were).  Every other field of the connection and of the
  state is unchanged, apart from the debug lines.
\<close>

theorem pickup_not_ringing:
  assumes "session g = Some s" and "i < length (connection s)" and "c = connection s ! i"
    and "state c \<noteq> STATE_RINGING"
  shows "capi_pickup e g (Some i) t =
           Inr (- 1,
                g\<lparr>session := Some (s\<lparr>connection := (connection s)
                        [i := (if t = SESSION_PHONE
                               then c\<lparr>type := t, init_data := Some capi_phone_init_data,
                                      data := Some capi_phone_data, clean := None, early_b3 := 1\<rparr>
                               else if t = SESSION_FAX
                               then c\<lparr>type := t, init_data := Some capi_fax_init_data,
                                      data := Some capi_fax_data, clean := Some capi_fax_clean,
                                      early_b3 := 0\<rparr>
                               else c\<lparr>type := t\<rparr>)]\<rparr>),
                  debug := debug g @
                    (if t = SESSION_PHONE \<or> t = SESSION_FAX then [] else [''Unhandled session type!!'']) @
                    [''CAPI Pickup called, even if not ringing'']\<rparr>)"
  using assms
  by (cases t)
     (auto simp: capi_pickup_def capi_connection_set_type_def step_defs Let_def)

text \<open>The theorem at an idle phone connection that is picked up as fax.\<close>

theorem pickup_not_ringing_witness:
  "capi_pickup env_accept
     (state_of [zero_connection\<lparr>type := SESSION_PHONE, clean := None, early_b3 := 1\<rparr>])
     (Some 0) SESSION_FAX =
   Inr (- 1,
        (state_of [zero_connection\<lparr>type := SESSION_FAX, init_data := Some capi_fax_init_data,
                     data := Some capi_fax_data, clean := Some capi_fax_clean, early_b3 := 0\<rparr>])
          \<lparr>debug := [''CAPI Pickup called, even if not ringing'']\<rparr>)"
proof -
  let ?c = "zero_connection\<lparr>type := SESSION_PHONE, clean := None, early_b3 := 1\<rparr>"
  have a: "session (state_of [?c]) = Some (session_of [?c])"
    by (simp add: state_of_def)
  have b: "0 < length (connection (session_of [?c]))"
    by (simp add: session_of_def)
  have c: "?c = connection (session_of [?c]) ! 0"
    by (simp add: session_of_def)
  have d: "state ?c \<noteq> STATE_RINGING"
    by (simp add: zero_connection_def)
  from pickup_not_ringing [OF a b c d, of env_accept SESSION_FAX] show ?thesis
    by (simp add: state_of_def session_of_def)
qed

section \<open>An accepted inbound call and a full pool\<close>

text \<open>
  C9.  A connect indication whose indicator is accepted (1, 4, 16 or 17) and whose
  numbers decode takes the result of the allocation and writes through it without a
  check.  With no session, or with every slot of the table occupied, the allocation
  returns NULL and the handler follows the null pointer; no response rejecting the call is
  sent.  With a free slot (and the mutex not held) the handler returns: the first free slot
  is ringing with the PLCI, source and target of the indication and kind none, and the
  alert request has been sent.
\<close>

theorem connect_ind_unchecked_allocation:
  assumes "Command m = CAPI_CONNECT" and "CIPValue m \<in> {16, 1, 4, 17}"
    and "capi_get_source_no m = Inr src" and "capi_get_target_no m = Inr trg"
  shows "(session g = None \<longrightarrow> capi_indication e g m = Inl NULL_DEREF) \<and>
         (session g = Some s \<and> (\<forall>c\<in>set (connection s). \<not> is_free c) \<longrightarrow>
            capi_indication e g m = Inl NULL_DEREF) \<and>
         (session g = Some s \<and> \<not> isdn_mutex s \<and> first_index is_free (connection s) = Some i \<longrightarrow>
            (\<exists>g'. capi_indication e g m = Inr g' \<and>
               slot g' i = Some ((connection s ! i)
                  \<lparr>conn_id := next_id g, state := STATE_RINGING, type := SESSION_NONE,
                   plci := adr m, source := Some src, target := Some trg\<rparr>) \<and>
               events g' = events g @ [Wire (ALERT_REQ (appl_id s) 0 (adr m))]))"
proof (intro conjI impI)
  assume "session g = None"
  with assms show "capi_indication e g m = Inl NULL_DEREF"
    by (auto simp: capi_indication_def ind_connect_def capi_get_free_connection_def g_debug_def Let_def)
next
  assume "session g = Some s \<and> (\<forall>c\<in>set (connection s). \<not> is_free c)"
  then have "capi_get_free_connection
               (g_debug g ''IND: CAPI_CONNECT - plci %d, source %s, target %s, cip: %d'') =
             (None, g_debug g ''IND: CAPI_CONNECT - plci %d, source %s, target %s, cip: %d'')"
    by (intro get_free_full [where s = s]) (auto simp: g_debug_def)
  with assms show "capi_indication e g m = Inl NULL_DEREF"
    by (auto simp: capi_indication_def ind_connect_def Let_def)
next
  assume a: "session g = Some s \<and> \<not> isdn_mutex s \<and> first_index is_free (connection s) = Some i"
  with first_index_Some [of is_free "connection s" i] have "i < length (connection s)" by simp
  with a assms show "\<exists>g'. capi_indication e g m = Inr g' \<and>
               slot g' i = Some ((connection s ! i)
                  \<lparr>conn_id := next_id g, state := STATE_RINGING, type := SESSION_NONE,
                   plci := adr m, source := Some src, target := Some trg\<rparr>) \<and>
               events g' = events g @ [Wire (ALERT_REQ (appl_id s) 0 (adr m))]"
    by (auto simp: capi_indication_def ind_connect_def capi_get_free_connection_def
          capi_resp_connection_def locked_request_free step_defs Let_def)
qed

text \<open>
  The theorem at a voice call from 30 to 12 (indicator 16) that arrives while the only
  slot of the table is in use: the handler follows a null pointer.
\<close>

theorem connect_ind_unchecked_allocation_witness:
  "capi_indication env_accept (state_of [zero_connection\<lparr>plci := 1, state := STATE_CONNECTED\<rparr>])
     (cmsg0\<lparr>Command := CAPI_CONNECT, Subcommand := CAPI_IND, adr := 2, CIPValue := 16,
            CallingPartyNumber := Some [4, 0x00, 0x80, 0x33, 0x30],
            CalledPartyNumber := Some [3, 0x80, 0x31, 0x32]\<rparr>)
   = Inl NULL_DEREF"
proof -
  let ?m = "cmsg0\<lparr>Command := CAPI_CONNECT, Subcommand := CAPI_IND, adr := 2, CIPValue := 16,
            CallingPartyNumber := Some [4, 0x00, 0x80, 0x33, 0x30],
            CalledPartyNumber := Some [3, 0x80, 0x31, 0x32]\<rparr>"
  let ?c = "zero_connection\<lparr>plci := 1, state := STATE_CONNECTED\<rparr>"
  have a: "Command ?m = CAPI_CONNECT" by (simp add: cmsg0_def)
  have b: "CIPValue ?m \<in> {16, 1, 4, 17}" by (simp add: cmsg0_def)
  have c: "capi_get_source_no ?m = Inr ''30''"
    by (simp add: capi_get_source_no_def cmsg0_def read_byte_def read_bytes_def c_string_def
          or_anonymous_def char_of_eq_iff)
  have d: "capi_get_target_no ?m = Inr ''12''"
    by (simp add: capi_get_target_no_def cmsg0_def read_byte_def read_bytes_def c_string_def
          or_anonymous_def char_of_eq_iff)
  have e: "session (state_of [?c]) = Some (session_of [?c]) \<and>
           (\<forall>c\<in>set (connection (session_of [?c])). \<not> is_free c)"
    by (simp add: state_of_def session_of_def is_free_def)
  from connect_ind_unchecked_allocation [OF a b c d, of "state_of [?c]" env_accept "session_of [?c]" 0] e
  show ?thesis by blast
qed

section \<open>The alert confirmation\<close>

text \<open>
  C7 (as amended).  On the alert confirmation for a connection found by its PLCI: a
  non-zero info other than 3 forces the connection to IDLE and raises no notification
  (the events are as before, every other slot is as before); info 0 or 3 instead calls the
  ring handler, which adds the connection to the application's registry and posts the
  incoming callback when that succeeds, and leaves the whole session, so also the state of
  the connection, as it was (a connection without target makes the ring
  handler follow a null pointer).
\<close>

theorem alert_conf:
  assumes "Command m = CAPI_ALERT" and "session g = Some s"
    and "first_index (\<lambda>c. plci c = adr m) (connection s) = Some i"
    and "c = connection s ! i"
  shows "(Info m \<noteq> 0 \<and> Info m \<noteq> 3 \<longrightarrow>
            (\<exists>g'. capi_confirmation e g m = Inr g' \<and> events g' = events g \<and>
                  slot g' i = Some (c\<lparr>state := STATE_IDLE\<rparr>) \<and>
                  (\<forall>j. j \<noteq> i \<longrightarrow> slot g' j = slot g j))) \<and>
         (Info m = 0 \<or> Info m = 3 \<longrightarrow>
            (case target c of
               None \<Rightarrow> capi_confirmation e g m = Inl NULL_DEREF
             | Some t \<Rightarrow>
                 (\<exists>g'. capi_confirmation e g m = Inr g' \<and>
                    session g' = session g \<and>
                    events g' = events g @
                      Rm_connection_add (conn_id c) (after_hash t)
                        (case source c of None \<Rightarrow> [] | Some x \<Rightarrow> x) #
                      (if rm_connection_add e (now g) (conn_id c)
                       then [Post emit_incoming (conn_id c)] else []))))"
  using assms first_index_Some [of "\<lambda>c. plci c = adr m" "connection s" i]
  by (auto simp: capi_confirmation_def conf_alert_def capi_find_plci_def get_session_def
        connection_ring_def step_defs Let_def split: option.splits)

text \<open>The theorem at a ringing connection whose alert is confirmed with info 0.\<close>

theorem alert_conf_witness:
  "state_at 0 (capi_confirmation env_accept
      (state_of [zero_connection\<lparr>plci := 1, state := STATE_RINGING, target := Some ''12''\<rparr>])
      (cmsg0\<lparr>Command := CAPI_ALERT, Subcommand := CAPI_CONF, adr := 1, Info := 0\<rparr>))
     = Some STATE_RINGING \<and>
   events_of (capi_confirmation env_accept
      (state_of [zero_connection\<lparr>plci := 1, state := STATE_RINGING, target := Some ''12''\<rparr>])
      (cmsg0\<lparr>Command := CAPI_ALERT, Subcommand := CAPI_CONF, adr := 1, Info := 0\<rparr>))
     = Some [Rm_connection_add 0 ''12'' [], Post emit_incoming 0]"
proof -
  let ?c = "zero_connection\<lparr>plci := 1, state := STATE_RINGING, target := Some ''12''\<rparr>"
  let ?m = "cmsg0\<lparr>Command := CAPI_ALERT, Subcommand := CAPI_CONF, adr := 1, Info := 0\<rparr>"
  have a: "Command ?m = CAPI_ALERT" by (simp add: cmsg0_def)
  have b: "session (state_of [?c]) = Some (session_of [?c])" by (simp add: state_of_def)
  have c: "first_index (\<lambda>c. plci c = adr ?m) (connection (session_of [?c])) = Some 0"
    by (simp add: session_of_def cmsg0_def)
  have d: "?c = connection (session_of [?c]) ! 0" by (simp add: session_of_def)
  have i0: "Info ?m = 0 \<or> Info ?m = 3" by (simp add: cmsg0_def)
  have t: "target ?c = Some ''12''" by simp
  from alert_conf [OF a b c d, of env_accept] i0 t obtain g' where
    "capi_confirmation env_accept (state_of [?c]) ?m = Inr g'"
    "session g' = session (state_of [?c])"
    "events g' = events (state_of [?c]) @
       Rm_connection_add (conn_id ?c) (after_hash ''12'')
         (case source ?c of None \<Rightarrow> [] | Some x \<Rightarrow> x) #
       (if rm_connection_add env_accept (now (state_of [?c])) (conn_id ?c)
        then [Post emit_incoming (conn_id ?c)] else [])"
    by auto
  then show ?thesis
    by (simp add: sample_defs slot_def after_hash_def)
qed

text \<open>
  C7 as stated fails: a refused alert (info 0x2001) on a registered, ringing connection
  forces IDLE, but no status callback is posted: there is no event at all.
\<close>

theorem alert_conf_failure_raises_no_status:
  "state_at 0 (capi_confirmation env_accept
      (state_of [zero_connection\<lparr>plci := 1, state := STATE_RINGING, target := Some ''12''\<rparr>])
      (cmsg0\<lparr>Command := CAPI_ALERT, Subcommand := CAPI_CONF, adr := 1, Info := 0x2001\<rparr>))
     = Some STATE_IDLE \<and>
   events_of (capi_confirmation env_accept
      (state_of [zero_connection\<lparr>plci := 1, state := STATE_RINGING, target := Some ''12''\<rparr>])
      (cmsg0\<lparr>Command := CAPI_ALERT, Subcommand := CAPI_CONF, adr := 1, Info := 0x2001\<rparr>))
     = Some []"
  by (simp add: capi_confirmation_def conf_alert_def capi_find_plci_def get_session_def
        step_defs Let_def state_at_def events_of_def state_of_def session_of_def cmsg0_def
        zero_connection_def)

section \<open>The outbound call\<close>

lemma set_type_result:
  assumes "session g = Some s" and "i < length (connection s)"
  shows "\<exists>rc c'. capi_connection_set_type g i t =
           Inr (rc, g\<lparr>session := Some (s\<lparr>connection := (connection s)[i := c']\<rparr>),
                       debug := debug g @ (if t = SESSION_PHONE \<or> t = SESSION_FAX then []
                                           else [''Unhandled session type!!''])\<rparr>) \<and>
           c' = (if t = SESSION_PHONE
                 then (connection s ! i)\<lparr>type := t, init_data := Some capi_phone_init_data,
                        data := Some capi_phone_data, clean := None, early_b3 := 1\<rparr>
                 else if t = SESSION_FAX
                 then (connection s ! i)\<lparr>type := t, init_data := Some capi_fax_init_data,
                        data := Some capi_fax_data, clean := Some capi_fax_clean, early_b3 := 0\<rparr>
                 else (connection s ! i)\<lparr>type := t\<rparr>)"
  using assms
  by (cases t) (auto simp: capi_connection_set_type_def step_defs Let_def)
lemma capi_call_accepted:
  assumes "session g = Some s" and "\<not> isdn_mutex s" and "src \<noteq> []" and "trg \<noteq> []"
    and "first_index is_free (connection s) = Some i"
    and "transport e (now g) (CONNECT_REQ (appl_id s) 0
            (connect_request_of e controller src trg anon cip b1 b2 b3 c1 c2 c3)) = 0"
  shows "\<exists>g' s'. capi_call e g controller (Some src) (Some trg) anon t cip b1 b2 b3 c1 c2 c3 = Inr (Some i, g') \<and>
           session g' = Some s' \<and> \<not> isdn_mutex s' \<and>
           length (connection s') = length (connection s) \<and>
           (\<forall>j. j \<noteq> i \<longrightarrow> connection s' ! j = connection s ! j) \<and>
           events g' = events g @ [Wire (CONNECT_REQ (appl_id s) 0
              (connect_request_of e controller src trg anon cip b1 b2 b3 c1 c2 c3))] \<and>
           next_id g' = (next_id g + 1) mod 2 ^ 32 \<and>
           conn_id (connection s' ! i) = next_id g \<and>
           state (connection s' ! i) = STATE_IDLE \<and>
           plci (connection s' ! i) = 0 \<and> ncci (connection s' ! i) = 0 \<and>
           type (connection s' ! i) = t \<and>
           source (connection s' ! i) = Some src \<and> target (connection s' ! i) = Some trg \<and>
           priv (connection s' ! i) = priv (connection s ! i)"
proof -
  from first_index_Some [OF assms(5)] have i: "i < length (connection s)"
    and free: "is_free (connection s ! i)" by auto
  show ?thesis
    using assms i free
    by (cases t)
       (auto simp: capi_call_def capi_get_free_connection_def capi_connection_set_type_def
          locked_request_free step_defs Let_def is_free_def)
qed

lemma capi_call_refused:
  assumes "session g = Some s" and "\<not> isdn_mutex s" and "src \<noteq> []" and "trg \<noteq> []"
    and "first_index is_free (connection s) = Some i"
    and "transport e (now g) (CONNECT_REQ (appl_id s) 0
            (connect_request_of e controller src trg anon cip b1 b2 b3 c1 c2 c3)) \<noteq> 0"
  shows "\<exists>g' s'. capi_call e g controller (Some src) (Some trg) anon t cip b1 b2 b3 c1 c2 c3 = Inr (None, g') \<and>
           session g' = Some s' \<and>
           connection s' = (connection s)[i := zero_connection]"
proof -
  from first_index_Some [OF assms(5)] have i: "i < length (connection s)"
    and free: "is_free (connection s ! i)" by auto
  show ?thesis
    using assms i free
    by (cases t)
       (auto simp: capi_call_def capi_get_free_connection_def capi_connection_set_type_def
          capi_set_free_def capi_error_def
          locked_request_free step_defs Let_def is_free_def split: option.splits)
qed

lemma conf_connect_accepted:
  assumes "Command m = CAPI_CONNECT" and "Info m = 0" and "session g = Some s"
    and "first_index (\<lambda>c. plci c = 0 \<and> type c \<noteq> SESSION_NONE) (connection s) = Some i"
  shows "\<exists>g'. capi_confirmation e g m = Inr g' \<and> events g' = events g \<and>
           slot g' i = Some ((connection s ! i)\<lparr>plci := adr m, state := STATE_CONNECT_WAIT\<rparr>)"
  using assms first_index_Some [OF assms(4)]
  by (auto simp: capi_confirmation_def conf_connect_def capi_find_new_def get_session_def
        step_defs Let_def)

lemma conf_connect_refused:
  assumes "Command m = CAPI_CONNECT" and "Info m \<noteq> 0" and "session g = Some s"
    and "first_index (\<lambda>c. plci c = 0 \<and> type c \<noteq> SESSION_NONE) (connection s) = Some i"
  shows "\<exists>g'. capi_confirmation e g m = Inr g' \<and>
           slot g' i = Some zero_connection \<and>
           events g' = events g @
             (if rm_connection_find_by_id e (now g) (conn_id (connection s ! i))
              then [Post emit_status (conn_id (connection s ! i))] else []) @
             (if priv (connection s ! i) \<noteq> None
              then (case clean (connection s ! i) of Some h \<Rightarrow> [Hook h i] | None \<Rightarrow> [])
              else [])"
  using assms first_index_Some [OF assms(4)]
  by (auto simp: capi_confirmation_def conf_connect_def capi_find_new_def get_session_def
        capi_set_free_def step_defs Let_def split: option.splits)

text \<open>
  What holds when the connect confirmation is handled right after the call, for a kind
  other than none and a table in which no slot has a bearer channel without a physical
  one: if the connect request is refused, the call returns no connection and the slot is
  zeroed; if it is accepted, the call returns the slot, which is IDLE without PLCI and
  carries a fresh id and the kind, and the confirmation finds this slot: with info 0 it
  stores the confirmed PLCI and moves the slot to CONNECT_WAIT, with another info it posts
  the status callback (if the connection is registered), runs the cleanup hook (if
  private data is attached) and zeroes the slot, which is IDLE then.
\<close>

lemma outbound_call:
  assumes "session g = Some s" and "\<not> isdn_mutex s" and "src \<noteq> []" and "trg \<noteq> []"
    and "first_index is_free (connection s) = Some i"
    and "t \<noteq> SESSION_NONE"
    and "\<forall>c\<in>set (connection s). plci c = 0 \<longrightarrow> ncci c = 0"
    and "Command m = CAPI_CONNECT"
    and "r = CONNECT_REQ (appl_id s) 0
               (connect_request_of e controller src trg anon cip b1 b2 b3 c1 c2 c3)"
  shows "(transport e (now g) r \<noteq> 0 \<longrightarrow>
            (\<exists>g'. capi_call e g controller (Some src) (Some trg) anon t cip b1 b2 b3 c1 c2 c3
                     = Inr (None, g') \<and>
                   slot g' i = Some zero_connection)) \<and>
         (transport e (now g) r = 0 \<longrightarrow>
            (\<exists>g' c'. capi_call e g controller (Some src) (Some trg) anon t cip b1 b2 b3 c1 c2 c3
                     = Inr (Some i, g') \<and>
                   events g' = events g @ [Wire r] \<and>
                   slot g' i = Some c' \<and> state c' = STATE_IDLE \<and> plci c' = 0 \<and>
                   conn_id c' = next_id g \<and> type c' = t \<and>
                   (Info m = 0 \<longrightarrow>
                      (\<exists>g''. capi_confirmation e g' m = Inr g'' \<and> events g'' = events g' \<and>
                         slot g'' i = Some (c'\<lparr>plci := adr m, state := STATE_CONNECT_WAIT\<rparr>))) \<and>
                   (Info m \<noteq> 0 \<longrightarrow>
                      (\<exists>g''. capi_confirmation e g' m = Inr g'' \<and>
                         slot g'' i = Some zero_connection \<and>
                         events g'' = events g' @
                           (if rm_connection_find_by_id e (now g') (conn_id c')
                            then [Post emit_status (conn_id c')] else []) @
                           (if priv c' \<noteq> None
                            then (case clean c' of Some h \<Rightarrow> [Hook h i] | None \<Rightarrow> [])
                            else [])))))"
proof (intro conjI impI)
  assume "transport e (now g) r \<noteq> 0"
  with capi_call_refused [OF assms(1-5), of e controller anon cip b1 b2 b3 c1 c2 c3 t] assms(9)
    first_index_Some [OF assms(5)]
  show "\<exists>g'. capi_call e g controller (Some src) (Some trg) anon t cip b1 b2 b3 c1 c2 c3
                     = Inr (None, g') \<and> slot g' i = Some zero_connection"
    by (auto simp: slot_def)
next
  assume "transport e (now g) r = 0"
  with capi_call_accepted [OF assms(1-5), of e controller anon cip b1 b2 b3 c1 c2 c3 t] assms(9)
  obtain g' s' where c:
    "capi_call e g controller (Some src) (Some trg) anon t cip b1 b2 b3 c1 c2 c3 = Inr (Some i, g')"
    "session g' = Some s'" "length (connection s') = length (connection s)"
    "\<forall>j. j \<noteq> i \<longrightarrow> connection s' ! j = connection s ! j"
    "events g' = events g @ [Wire r]"
    "conn_id (connection s' ! i) = next_id g" "state (connection s' ! i) = STATE_IDLE"
    "plci (connection s' ! i) = 0" "type (connection s' ! i) = t"
    by auto
  from first_index_Some [OF assms(5)] have i: "i < length (connection s)"
    and before: "\<forall>j<i. \<not> is_free (connection s ! j)" by auto
  have "\<forall>j<i. \<not> (plci (connection s' ! j) = 0 \<and> type (connection s' ! j) \<noteq> SESSION_NONE)"
  proof (intro allI impI)
    fix j assume j: "j < i"
    with c(4) have eq: "connection s' ! j = connection s ! j" by simp
    from j i have "connection s ! j \<in> set (connection s)" by simp
    with assms(7) have inv: "plci (connection s ! j) = 0 \<longrightarrow> ncci (connection s ! j) = 0"
      by blast
    from before j have "\<not> is_free (connection s ! j)" by blast
    with inv have "plci (connection s ! j) \<noteq> 0"
      by (cases "plci (connection s ! j) = 0") (simp_all add: is_free_def)
    with eq show "\<not> (plci (connection s' ! j) = 0 \<and> type (connection s' ! j) \<noteq> SESSION_NONE)"
      by simp
  qed
  with i c(3,8,9) assms(6)
  have new: "first_index (\<lambda>c. plci c = 0 \<and> type c \<noteq> SESSION_NONE) (connection s') = Some i"
    by (intro first_index_eqI) auto
  have sl: "slot g' i = Some (connection s' ! i)"
    using c(2,3) i by (simp add: slot_def)
  show "\<exists>g' c'. capi_call e g controller (Some src) (Some trg) anon t cip b1 b2 b3 c1 c2 c3
                     = Inr (Some i, g') \<and>
                   events g' = events g @ [Wire r] \<and>
                   slot g' i = Some c' \<and> state c' = STATE_IDLE \<and> plci c' = 0 \<and>
                   conn_id c' = next_id g \<and> type c' = t \<and>
                   (Info m = 0 \<longrightarrow>
                      (\<exists>g''. capi_confirmation e g' m = Inr g'' \<and> events g'' = events g' \<and>
                         slot g'' i = Some (c'\<lparr>plci := adr m, state := STATE_CONNECT_WAIT\<rparr>))) \<and>
                   (Info m \<noteq> 0 \<longrightarrow>
                      (\<exists>g''. capi_confirmation e g' m = Inr g'' \<and>
                         slot g'' i = Some zero_connection \<and>
                         events g'' = events g' @
                           (if rm_connection_find_by_id e (now g') (conn_id c')
                            then [Post emit_status (conn_id c')] else []) @
                           (if priv c' \<noteq> None
                            then (case clean c' of Some h \<Rightarrow> [Hook h i] | None \<Rightarrow> [])
                            else [])))"
    using c(1,5,6,7,8,9) sl
      conf_connect_accepted [OF assms(8) _ c(2) new, of e]
      conf_connect_refused [OF assms(8) _ c(2) new, of e]
    by (intro exI [of _ g'] exI [of _ "connection s' ! i"]) auto
qed

text \<open>The lemma at a phone call on an empty table, confirmed with PLCI 5.\<close>

lemma outbound_call_witness:
  "state_at 0 (call_then_confirm env_accept (state_of [zero_connection]) 1 ''1'' ''12345'' 0
       SESSION_PHONE 16
       (cmsg0\<lparr>Command := CAPI_CONNECT, Subcommand := CAPI_CONF, adr := 5, Info := 0\<rparr>))
     = Some STATE_CONNECT_WAIT \<and>
   plci_at 0 (call_then_confirm env_accept (state_of [zero_connection]) 1 ''1'' ''12345'' 0
       SESSION_PHONE 16
       (cmsg0\<lparr>Command := CAPI_CONNECT, Subcommand := CAPI_CONF, adr := 5, Info := 0\<rparr>))
     = Some 5"
proof -
  let ?g = "state_of [zero_connection]"
  let ?s = "session_of [zero_connection]"
  let ?m = "cmsg0\<lparr>Command := CAPI_CONNECT, Subcommand := CAPI_CONF, adr := 5, Info := 0\<rparr>"
  let ?r = "CONNECT_REQ (appl_id ?s) 0
              (connect_request_of env_accept 1 ''1'' ''12345'' 0 16 1 1 0 None None None)"
  have a: "session ?g = Some ?s" by (simp add: state_of_def)
  have b: "\<not> isdn_mutex ?s" by (simp add: session_of_def)
  have c: "''1'' \<noteq> []" "''12345'' \<noteq> []" by simp_all
  have d: "first_index is_free (connection ?s) = Some 0"
    by (simp add: session_of_def is_free_def zero_connection_def)
  have f: "SESSION_PHONE \<noteq> SESSION_NONE" by simp
  have h: "\<forall>c\<in>set (connection ?s). plci c = 0 \<longrightarrow> ncci c = 0"
    by (simp add: session_of_def zero_connection_def)
  have k: "Command ?m = CAPI_CONNECT" by (simp add: cmsg0_def)
  have t0: "transport env_accept (now ?g) ?r = 0" by (simp add: env_accept_def)
  have i0: "Info ?m = 0" by (simp add: cmsg0_def)
  from outbound_call [OF a b c d f h k refl, of env_accept 1 0 16 1 1 0 None None None] t0 i0
  obtain g' c' g'' where
    "capi_call env_accept ?g 1 (Some ''1'') (Some ''12345'') 0 SESSION_PHONE 16 1 1 0 None None None
       = Inr (Some 0, g')"
    "capi_confirmation env_accept g' ?m = Inr g''"
    "slot g'' 0 = Some (c'\<lparr>plci := adr ?m, state := STATE_CONNECT_WAIT\<rparr>)"
    by blast
  then show ?thesis
    by (simp add: call_then_confirm_def state_after_def state_at_def plci_at_def cmsg0_def)
qed

text \<open>
  A call of kind none is sent and returns the slot, but the confirmation looks for a slot
  whose kind is not none, finds nothing, and the connection stays IDLE without the
  confirmed PLCI.
\<close>

lemma call_of_kind_none_is_not_confirmed:
  "state_at 0 (call_then_confirm env_accept (state_of [zero_connection]) 1 ''1'' ''12345'' 0
       SESSION_NONE 16
       (cmsg0\<lparr>Command := CAPI_CONNECT, Subcommand := CAPI_CONF, adr := 5, Info := 0\<rparr>))
     = Some STATE_IDLE \<and>
   plci_at 0 (call_then_confirm env_accept (state_of [zero_connection]) 1 ''1'' ''12345'' 0
       SESSION_NONE 16
       (cmsg0\<lparr>Command := CAPI_CONNECT, Subcommand := CAPI_CONF, adr := 5, Info := 0\<rparr>))
     = Some 0"
  by (simp add: call_then_confirm_def capi_call_def capi_get_free_connection_def
        capi_connection_set_type_def is_free_def state_after_def
        locked_request_free [where s = "session_of [zero_connection\<lparr>conn_id := 1024, type := SESSION_NONE\<rparr>]"]
        capi_confirmation_def conf_connect_def capi_find_new_def get_session_def
        step_defs sample_defs Let_def)

lemmas run_defs = capi_call_def capi_get_free_connection_def capi_connection_set_type_def
  is_free_def state_after_def returned_connection_def
  locked_request_def isdn_lock_def isdn_unlock_def put_request_def get_session_def
  capi_indication_def ind_connect_def capi_get_source_no_def capi_get_target_no_def
  read_byte_def read_bytes_def c_string_def or_anonymous_def char_of_eq_iff
  capi_resp_connection_def
  capi_confirmation_def conf_connect_def capi_find_new_def
  inbound_voice_call_def connect_confirmed_def

lemma call_returns_slot:
  "returned_connection (capi_call env_accept (state_of [zero_connection, zero_connection]) 1
      (Some ''1'') (Some ''12345'') 0 SESSION_PHONE 16 1 1 0 None None None) = Some 0"
  by (simp add: run_defs step_defs sample_defs Let_def)

lemma call_leaves_idle:
  "state_at 0 (run env_accept (state_of [zero_connection, zero_connection])
      [Op_call 1 (Some ''1'') (Some ''12345'') 0 SESSION_PHONE 16]) = Some STATE_IDLE"
  by (simp add: run_defs step_defs sample_defs Let_def)

lemma direct_confirmation:
  "state_at 0 (run env_accept (state_of [zero_connection, zero_connection])
      [Op_call 1 (Some ''1'') (Some ''12345'') 0 SESSION_PHONE 16,
       Op_confirmation connect_confirmed]) = Some STATE_CONNECT_WAIT"
  by (simp add: run_defs step_defs sample_defs Let_def)

lemma inbound_in_between:
  "state_at 0 (run env_accept (state_of [zero_connection, zero_connection])
      [Op_call 1 (Some ''1'') (Some ''12345'') 0 SESSION_PHONE 16,
       Op_indication inbound_voice_call,
       Op_confirmation connect_confirmed]) = Some STATE_RINGING"
  by (simp add: run_defs step_defs sample_defs Let_def)

lemma inbound_in_between_plci:
  "plci_at 0 (run env_accept (state_of [zero_connection, zero_connection])
      [Op_call 1 (Some ''1'') (Some ''12345'') 0 SESSION_PHONE 16,
       Op_indication inbound_voice_call,
       Op_confirmation connect_confirmed]) = Some 2"
  by (simp add: run_defs step_defs sample_defs Let_def)

text \<open>
  C5.  A phone call from 1 to 12345 on a registered session with two free slots is
  accepted by the transport and returns slot 0, which is IDLE; handled right away, the
  confirmation with PLCI 5 moves it to CONNECT_WAIT.  But the allocation has left PLCI and
  NCCI of the slot at 0, so the slot still counts as free: an inbound call that is indicated
  before the confirmation is given the same slot, which is RINGING with the inbound PLCI 2
  then, and the confirmation of the outbound call finds no newly allocated connection and
  is dropped.  The connection returned by the call has not stayed IDLE until its
  confirmation, and it never reaches CONNECT_WAIT with the confirmed PLCI.
\<close>

theorem outbound_slot_taken_before_confirmation:
  "returned_connection (capi_call env_accept (state_of [zero_connection, zero_connection]) 1
      (Some ''1'') (Some ''12345'') 0 SESSION_PHONE 16 1 1 0 None None None) = Some 0 \<and>
   state_at 0 (run env_accept (state_of [zero_connection, zero_connection])
      [Op_call 1 (Some ''1'') (Some ''12345'') 0 SESSION_PHONE 16]) = Some STATE_IDLE \<and>
   state_at 0 (run env_accept (state_of [zero_connection, zero_connection])
      [Op_call 1 (Some ''1'') (Some ''12345'') 0 SESSION_PHONE 16,
       Op_confirmation connect_confirmed]) = Some STATE_CONNECT_WAIT \<and>
   state_at 0 (run env_accept (state_of [zero_connection, zero_connection])
      [Op_call 1 (Some ''1'') (Some ''12345'') 0 SESSION_PHONE 16,
       Op_indication inbound_voice_call,
       Op_confirmation connect_confirmed]) = Some STATE_RINGING \<and>
   plci_at 0 (run env_accept (state_of [zero_connection, zero_connection])
      [Op_call 1 (Some ''1'') (Some ''12345'') 0 SESSION_PHONE 16,
       Op_indication inbound_voice_call,
       Op_confirmation connect_confirmed]) = Some 2"
  using call_returns_slot call_leaves_idle direct_confirmation inbound_in_between
    inbound_in_between_plci
  by (intro conjI)

section \<open>A call of unknown kind\<close>

text \<open>
  C4.  \<^verbatim>\<open>capi_connection_set_type\<close> reports an unknown kind with -1, and \<^verbatim>\<open>capi_call\<close>
  does not read that result: a call of kind none, on a registered session with a free
  slot and a transport that accepts, puts its connect request on the wire and returns the
  allocated slot.
\<close>

theorem unknown_kind_reaches_transport:
  "returned_connection (capi_call env_accept (state_of [zero_connection]) 1 (Some ''1'')
       (Some ''12345'') 0 SESSION_NONE 16 1 1 0 None None None) = Some 0 \<and>
   connect_requests (state_after (capi_call env_accept (state_of [zero_connection]) 1 (Some ''1'')
       (Some ''12345'') 0 SESSION_NONE 16 1 1 0 None None None)) = Some 1"
  by (simp add: capi_call_def capi_get_free_connection_def
        capi_connection_set_type_def is_free_def state_after_def returned_connection_def
        connect_requests_def
        locked_request_free [where s = "session_of [zero_connection\<lparr>conn_id := 1024, type := SESSION_NONE\<rparr>]"]
        step_defs sample_defs Let_def)

section \<open>Calling party number: encoding and decoding\<close>

lemma strncpy_bytes_length [simp]: "length (strncpy_bytes src n) = n"
  by (simp add: strncpy_bytes_def)

lemma header_and_digits:
  assumes "length arr = 70" and "length xs = 66"
  shows "write_at (arr[1 := b, 2 := c, 0 := a]) 3 xs = [a, b, c] @ xs @ [arr ! 69]"
proof (rule nth_equalityI)
  show "length (write_at (arr[1 := b, 2 := c, 0 := a]) 3 xs) = length ([a, b, c] @ xs @ [arr ! 69])"
    using assms by (simp add: write_at_def)
next
  fix i
  assume "i < length (write_at (arr[1 := b, 2 := c, 0 := a]) 3 xs)"
  with assms have i: "i < 70" by (simp add: write_at_def)
  consider "i = 0" | "i = 1" | "i = 2" | "3 \<le> i" "i < 69" | "i = 69"
    using i by linarith
  then show "write_at (arr[1 := b, 2 := c, 0 := a]) 3 xs ! i = ([a, b, c] @ xs @ [arr ! 69]) ! i"
    using assms
    by cases (auto simp: write_at_def nth_append nth_Cons' min_def numeral_3_eq_3)
qed

lemma of_char_nat_eq_0: "(of_char c :: nat) = 0 \<longleftrightarrow> c = CHR 0x00"
proof -
  have "(of_char (CHR 0x00) :: nat) = 0" by simp
  then have "(of_char c :: nat) = 0 \<longleftrightarrow> (of_char c :: nat) = of_char (CHR 0x00)" by simp
  then show ?thesis by (simp only: of_char_eq_iff)
qed

lemma of_char_nat_pos: "0 < (of_char c :: nat) \<longleftrightarrow> c \<noteq> CHR 0x00"
  using of_char_nat_eq_0 [of c] by arith

lemma c_string_of_chars:
  "CHR 0x00 \<notin> set src \<Longrightarrow> c_string (map of_char src) = src"
proof -
  assume a: "CHR 0x00 \<notin> set src"
  then have "takeWhile (\<lambda>b. b \<noteq> (0::nat)) (map of_char src) = map of_char src"
    by (intro takeWhile_eq_all_conv [THEN iffD2]) (auto simp: of_char_nat_pos)
  then have "c_string (map of_char src) = map char_of (map (of_char :: char \<Rightarrow> nat) src)"
    by (simp only: c_string_def)
  also have "\<dots> = src"
    by (induction src) simp_all
  finally show ?thesis .
qed

lemma calling_party_number_extern:
  "calling_party_number e src anon False =
     [(2 + length src) mod 256, 0x00, (if anon \<noteq> 0 then 0xA0 else 0x80)] @
     strncpy_bytes src 66 @ [uninit e 139]"
proof -
  let ?a = "map (uninit e) [70..<140]"
  have l: "length ?a = 70" by simp
  have n: "?a ! 69 = uninit e 139" by simp
  have u: "?a[1 := 0, 2 := 128, 2 := 160] = ?a[1 := 0, 2 := 160]" by simp
  show ?thesis
    using header_and_digits [OF l, of "strncpy_bytes src 66"]
    by (simp add: calling_party_number_def Let_def n del: upt_Suc list_update.simps)
qed

text \<open>
  C6 (as amended).  For a non-empty source number of at most 66 characters (what
  \<^verbatim>\<open>strncpy\<close> copies into the array of 70), without NUL, and a target that does not begin
  with \<^verbatim>\<open>*\<close> or \<^verbatim>\<open>#\<close>, the calling party number that the outbound call passes to the
  connect request is decoded by the inbound source-number rule to the number itself
  (whether or not the call is anonymous).
\<close>

theorem calling_number_roundtrip:
  assumes "src \<noteq> []" and "length src \<le> 66" and "CHR 0x00 \<notin> set src"
    and "\<not> (trg \<noteq> [] \<and> (hd trg = CHR ''*'' \<or> hd trg = CHR ''#''))"
  shows "capi_get_source_no
           (m\<lparr>CallingPartyNumber := Some (CallingPartyNumber_req
                (connect_request_of e controller src trg anon cip b1 b2 b3 c1 c2 c3))\<rparr>) = Inr src"
proof -
  let ?x = "calling_party_number e src anon False"
  have req: "CallingPartyNumber_req (connect_request_of e controller src trg anon cip b1 b2 b3 c1 c2 c3) = ?x"
    using assms(4) by (auto simp: connect_request_of_def Let_def split: prod.splits)
  have x: "?x = [2 + length src, 0x00, (if anon \<noteq> 0 then 0xA0 else 0x80)] @
             strncpy_bytes src 66 @ [uninit e 139]"
    using assms(2) by (simp add: calling_party_number_extern)
  have b0: "read_byte ?x 0 = Inr (2 + length src)"
    unfolding x by (simp add: read_byte_def)
  have b2: "read_byte ?x 2 = Inr (if anon \<noteq> 0 then 0xA0 else 0x80)"
    unfolding x by (simp add: read_byte_def)
  have digits: "read_bytes ?x 3 (length src) = Inr (map of_char src)"
    unfolding x using assms(2) by (simp add: read_bytes_def strncpy_bytes_def)
  have len: "\<not> 2 + length src \<le> 1" by simp
  show ?thesis
    using assms(1,3) len
    by (simp add: capi_get_source_no_def req b0 b2 digits c_string_of_chars or_anonymous_def
          del: One_nat_def)
qed

text \<open>The theorem at the number 12345 calling 67890.\<close>

theorem calling_number_roundtrip_witness:
  "capi_get_source_no
     (cmsg0\<lparr>CallingPartyNumber := Some (CallingPartyNumber_req
        (connect_request_of env_accept 1 ''12345'' ''67890'' 0 16 1 1 0 None None None))\<rparr>)
   = Inr ''12345''"
  using calling_number_roundtrip [where src = "''12345''" and trg = "''67890''" and m = cmsg0
      and e = env_accept and controller = 1 and anon = 0 and cip = 16 and ?b1.0 = 1 and ?b2.0 = 1
      and ?b3.0 = 0 and ?c1.0 = None and ?c2.0 = None and ?c3.0 = None]
  by simp

text \<open>
  C6 as stated fails for a long number: of 67 digits only 66 are copied, the length byte
  announces 67, and the decoder returns the 66 digits (where the byte behind them is 0).
\<close>

lemma long_number_decoded:
  "capi_get_source_no
     (cmsg0\<lparr>CallingPartyNumber := Some (CallingPartyNumber_req
        (connect_request_of env_accept 1 (replicate 67 CHR ''1'') ''67890'' 0 16 1 1 0 None None None))\<rparr>)
   = Inr (replicate 66 CHR ''1'')"
  by code_simp

theorem long_number_not_recovered:
  "capi_get_source_no
     (cmsg0\<lparr>CallingPartyNumber := Some (CallingPartyNumber_req
        (connect_request_of env_accept 1 (replicate 67 CHR ''1'') ''67890'' 0 16 1 1 0 None None None))\<rparr>)
   \<noteq> Inr (replicate 67 CHR ''1'')"
  unfolding long_number_decoded by code_simp

section \<open>Events are only added\<close>


lemma events_g_debug [simp]: "events (g_debug g msg) = events g"
  by (simp add: g_debug_def)

lemma events_modify [simp]: "events (modify g i f) = events g"
  by (simp add: modify_def split: option.splits)

lemma events_set_state [simp]: "events (set_state g i st) = events g"
  by (simp add: set_state_def)

lemma events_emit [simp]: "events (emit g ev) = events g @ [ev]"
  by (simp add: emit_def)

lemma events_foldl_debug [simp]: "events (foldl g_debug g ls) = events g"
  by (induction ls arbitrary: g) simp_all

lemma events_capi_error [simp]: "events (capi_error g err) = events g"
  by (simp add: capi_error_def Let_def)




































section \<open>The terminal disconnect indication\<close>










section \<open>The dispatch loop\<close>

lemma state_session_eq: "session g = Some s \<Longrightarrow> g\<lparr>session := Some s\<rparr> = g"
  by (cases g) simp

lemma get_cmsg_locked_free:
  "session g = Some s \<Longrightarrow> \<not> isdn_mutex s \<Longrightarrow> get_cmsg_locked g = Inr g"
  by (simp add: get_cmsg_locked_def isdn_lock_def isdn_unlock_def get_session_def state_session_eq)

lemma loop_fatal_decode:
  assumes "session g = Some s" and "\<not> isdn_mutex s"
    and "info \<noteq> CapiNoError" and "info \<noteq> CapiReceiveQueueEmpty"
  shows "capi_loop e g (Waited CapiNoError info m c # rest) = Returned g"
  using assms by (simp add: get_cmsg_locked_free)

lemma upto_single: "[i..i] = [i]"
  by (simp add: upto.simps)

lemmas loop_defs = get_cmsg_locked_def CapiNoError_def CapiReceiveQueueEmpty_def
  G_USEC_PER_SEC_def capi_reconnect_def isdn_lock_def isdn_unlock_def get_session_def
  capi_close_def capi_init_def upto_single

lemma loop_cancelled: "capi_loop e g (Cancelled # rest) = Returned (g\<lparr>session := None\<rparr>)"
  by simp

text \<open>
  One reconnect on a session without calls: the loop sleeps, releases the registration,
  registers and listens again, and goes on (here, to its cancellation, where the session
  reference is cleared).
\<close>

lemma loop_reconnects_once:
  "capi_loop env_accept (state_of [zero_connection]) [Waited 0 0x1104 cmsg0 False, Cancelled]
     = Returned
         \<lparr>session = None, next_id = 1024,
          events = [Usleep 1000000, CAPI20_RELEASE 1, CAPI20_REGISTER, Wire (LISTEN_REQ 1 0 1)],
          debug = [''Empty queue, even if message pending.. reconnecting'',
                   ''Listen to controller #%d ...'', ''CAPI connection established!'']\<rparr>"
  by (simp add: loop_defs step_defs sample_defs Let_def)

text \<open>
  A reconnect while a call is in progress: \<open>capi_reconnect\<close> holds the mutex when
  \<open>capi_close\<close> hangs the call up, and the hangup locks the mutex again.
\<close>

lemma reconnect_with_a_call_in_progress:
  "capi_loop env_accept (state_of [zero_connection\<lparr>plci := 1, state := STATE_CONNECT_ACTIVE\<rparr>])
     [Waited 0 0x1104 cmsg0 False, Cancelled] = Crashed DEADLOCK"
  by (simp add: loop_defs capi_hangup_def locked_request_def step_defs sample_defs Let_def)

text \<open>
  C8.  The loop is left by \<^verbatim>\<open>return NULL\<close> when the message cannot be decoded (a decode
  result other than success and empty queue, here 0x1101): it returns with the session
  reference still set, where the exit by cancellation clears it.
\<close>

theorem loop_returns_with_session_set:
  "capi_loop env_accept (state_of [zero_connection]) [Waited 0 0x1101 cmsg0 False]
     = Returned (state_of [zero_connection]) \<and>
   session (state_of [zero_connection]) \<noteq> None"
proof -
  have a: "session (state_of [zero_connection]) = Some (session_of [zero_connection])"
    by (simp add: state_of_def)
  have b: "\<not> isdn_mutex (session_of [zero_connection])"
    by (simp add: session_of_def)
  have c: "(0x1101 :: nat) \<noteq> CapiNoError" "(0x1101 :: nat) \<noteq> CapiReceiveQueueEmpty"
    by (simp_all add: CapiNoError_def CapiReceiveQueueEmpty_def)
  have "capi_loop env_accept (state_of [zero_connection]) (Waited CapiNoError 0x1101 cmsg0 False # [])
          = Returned (state_of [zero_connection])"
    by (rule loop_fatal_decode [OF a b c])
  with a show ?thesis by (simp add: CapiNoError_def)
qed

end
